theory Spec2Isabelle
  imports Complex_Main
begin

section \<open>The game state engine of \<open>useGameState.ts\<close>\<close>

text \<open>
  The hook \<open>useGameState\<close> owns one \<open>GameState\<close> value and changes it only through
  \<open>setGameState(prev => next)\<close>. Every such updater is a pure function of \<open>prev\<close> and is
  embedded here as a HOL function on the state record. An operation that queues several
  updaters (\<open>equipWeapon\<close> queues its own updater and then \<open>updatePlayerStats\<close>) is the
  composition of these functions in queue order.

  Numbers. Currencies, hit points, levels, zones and counters are integers in every state
  the code builds (they start as integers and change by integer amounts or through
  \<open>Math.floor\<close>); they are \<open>int\<close> here. A fractional number is the rational that the double
  stands for. The streak multiplier and the rewards computed from it go through the
  arithmetic of doubles (\<open>mulDouble\<close>, \<open>addDouble\<close> below): there the rounding decides
  whole coins. The floors of an upgrade (\<open>* 1.5\<close>, \<open>* 1.2\<close>) are taken of the exact product,
  which has the same floor as the double product for every integer below \<open>2^52\<close>; the
  research bonus comes from outside and its multiplier is kept exact.

  Collaborators that are not part of the hook are parameters: the results of
  \<open>calculateResearchBonus\<close>, \<open>checkAchievements\<close> and \<open>initializeAchievements\<close> come from a
  record of functions, the draws of \<open>Math.random\<close>, the generated enemy and items and the
  clock reading of \<open>new Date()\<close> are arguments of the operation that uses them.

  The visual effects (\<open>triggerVisualEffect\<close>) live in a second state of the hook that the
  game state never reads; they are left out.
\<close>

subsection \<open>Data model\<close>

datatype Rarity = Common | Rare | Epic | Legendary | Mythical

text \<open>Fields of \<open>Weapon\<close>, \<open>Armor\<close> and \<open>Enemy\<close> carry a prefix, since several types of the
  source share the field names \<open>id\<close>, \<open>name\<close>, \<open>level\<close>, \<open>hp\<close>.\<close>

record Weapon =
  w_id :: string
  w_name :: string
  w_rarity :: Rarity
  w_baseAtk :: int
  w_level :: int
  w_upgradeCost :: int
  w_sellPrice :: int

record Armor =
  a_id :: string
  a_name :: string
  a_rarity :: Rarity
  a_baseDef :: int
  a_level :: int
  a_upgradeCost :: int
  a_sellPrice :: int

text \<open>The union \<open>Weapon | Armor\<close>, which the source tells apart by \<open>'baseAtk' in item\<close>.\<close>

datatype Item = WeaponItem Weapon | ArmorItem Armor

record Enemy =
  e_name :: string
  e_zone :: int
  e_hp :: int
  e_maxHp :: int
  e_atk :: int
  e_def :: int

record PlayerStats =
  hp :: int
  maxHp :: int
  atk :: int
  def :: int
  baseAtk :: int
  baseDef :: int
  baseHp :: int

record Inventory =
  weapons :: "Weapon list"
  armor :: "Armor list"
  currentWeapon :: "Weapon option"
  currentArmor :: "Armor option"

record Research =
  level :: int
  tier :: int
  totalSpent :: int

record CollectionBook =
  cb_weapons :: "string \<rightharpoonup> bool"
  cb_armor :: "string \<rightharpoonup> bool"
  totalWeaponsFound :: int
  totalArmorFound :: int
  rarityStats :: "Rarity \<Rightarrow> int"

record KnowledgeStreak =
  current :: int
  best :: int
  multiplier :: rat
  lastCorrectTime :: "nat option"

datatype Mode = Normal | Speed | Survival

record GameMode =
  gm_current :: Mode
  speedModeActive :: bool
  survivalLives :: int
  maxSurvivalLives :: int

record CategoryAccuracy =
  acc_correct :: int
  acc_total :: int

record Statistics =
  totalQuestionsAnswered :: int
  correctAnswers :: int
  totalPlayTime :: int
  zonesReached :: int
  itemsCollected :: int
  coinsEarned :: int
  gemsEarned :: int
  chestsOpened :: int
  accuracyByCategory :: "string \<rightharpoonup> CategoryAccuracy"
  sessionStartTime :: nat

record Reward =
  reward_coins :: "int option"
  reward_gems :: "int option"

text \<open>The hook reads only \<open>id\<close> and \<open>reward\<close> of an achievement; \<open>ach_unlocked\<close> stands for
  the rest of the entry, which the hook copies without looking at it.\<close>

record Achievement =
  ach_id :: string
  ach_unlocked :: bool
  ach_reward :: "Reward option"

record GameState =
  coins :: int
  gems :: int
  zone :: int
  playerStats :: PlayerStats
  inventory :: Inventory
  currentEnemy :: "Enemy option"
  inCombat :: bool
  combatLog :: "string list"
  research :: Research
  isPremium :: bool
  achievements :: "Achievement list"
  collectionBook :: CollectionBook
  knowledgeStreak :: KnowledgeStreak
  gameMode :: GameMode
  statistics :: Statistics

datatype ChestType = ChestWeapon | ChestArmor

record ChestReward =
  chest_type :: ChestType
  chest_items :: "Item list"

text \<open>The functions imported from \<open>utils/gameUtils\<close> and \<open>utils/achievements\<close>.\<close>

record Collaborators =
  calculateResearchBonus :: "int \<Rightarrow> int \<Rightarrow> rat"
  checkAchievements :: "GameState \<Rightarrow> Achievement list"
  initializeAchievements :: "Achievement list"

subsection \<open>Initial state\<close>

definition initialPlayerStats :: PlayerStats where
  "initialPlayerStats =
     \<lparr>hp = 200, maxHp = 200, atk = 50, def = 0, baseAtk = 50, baseDef = 0, baseHp = 200\<rparr>"

definition initialInventory :: Inventory where
  "initialInventory = \<lparr>weapons = [], armor = [], currentWeapon = None, currentArmor = None\<rparr>"

definition initialResearch :: Research where
  "initialResearch = \<lparr>level = 0, tier = 0, totalSpent = 0\<rparr>"

definition initialCollectionBook :: CollectionBook where
  "initialCollectionBook =
     \<lparr>cb_weapons = Map.empty, cb_armor = Map.empty, totalWeaponsFound = 0,
      totalArmorFound = 0, rarityStats = (\<lambda>_. 0)\<rparr>"

definition initialKnowledgeStreak :: KnowledgeStreak where
  "initialKnowledgeStreak = \<lparr>current = 0, best = 0, multiplier = 1, lastCorrectTime = None\<rparr>"

definition initialGameMode :: GameMode where
  "initialGameMode =
     \<lparr>gm_current = Normal, speedModeActive = False, survivalLives = 3, maxSurvivalLives = 3\<rparr>"

definition initialStatistics :: "nat \<Rightarrow> Statistics" where
  "initialStatistics now =
     \<lparr>totalQuestionsAnswered = 0, correctAnswers = 0, totalPlayTime = 0, zonesReached = 1,
      itemsCollected = 0, coinsEarned = 0, gemsEarned = 0, chestsOpened = 0,
      accuracyByCategory = Map.empty, sessionStartTime = now\<rparr>"

definition initialGameState :: "Collaborators \<Rightarrow> nat \<Rightarrow> GameState" where
  "initialGameState X now =
     \<lparr>coins = 100, gems = 0, zone = 1, playerStats = initialPlayerStats,
      inventory = initialInventory, currentEnemy = None, inCombat = False, combatLog = [],
      research = initialResearch, isPremium = False,
      achievements = initializeAchievements X, collectionBook = initialCollectionBook,
      knowledgeStreak = initialKnowledgeStreak, gameMode = initialGameMode,
      statistics = initialStatistics now\<rparr>"

subsection \<open>Rendering numbers in the combat log\<close>

fun showNat :: "nat \<Rightarrow> string" where
  "showNat n =
     (if n < 10 then [char_of (48 + n)] else showNat (n div 10) @ [char_of (48 + n mod 10)])"

declare showNat.simps [simp del]

definition showInt :: "int \<Rightarrow> string" where
  "showInt i = (if i < 0 then ''-'' @ showNat (nat (- i)) else showNat (nat i))"

subsection \<open>The arithmetic of JavaScript numbers\<close>

text \<open>A JavaScript number is an IEEE 754 double: a sign, a 53-bit significand and a binary
  exponent. The result of \<open>*\<close> and \<open>+\<close> is the exact result rounded to the nearest double,
  to the one with the even significand when two are equally near. \<open>roundDouble\<close> is this
  rounding on the rationals: for \<open>2^e \<le> |x| < 2^(e+1)\<close> the doubles around \<open>x\<close> are the
  multiples of \<open>2^(e-52)\<close>. The exponent is not bounded here: no number of this program
  comes near \<open>2^1024\<close> or \<open>2^-1022\<close>, where doubles overflow or lose bits.\<close>

function bitLength :: "int \<Rightarrow> int" where
  "bitLength n = (if n \<le> 0 then 0 else 1 + bitLength (n div 2))"
  by pat_completeness auto
termination
  by (relation "measure nat") auto

declare bitLength.simps [simp del]

definition pow2 :: "int \<Rightarrow> rat" where
  "pow2 e = (if 0 \<le> e then 2 ^ nat e else 1 / 2 ^ nat (- e))"

text \<open>For \<open>x > 0\<close>, the \<open>e\<close> with \<open>2^e \<le> x < 2^(e+1)\<close>: the bit lengths of numerator and
  denominator give it up to one, the comparison settles it.\<close>

definition binaryExponent :: "rat \<Rightarrow> int" where
  "binaryExponent x =
     (let (a, b) = quotient_of x;
          g = bitLength a - bitLength b
      in if x < pow2 g then g - 1 else g)"

definition roundHalfEven :: "rat \<Rightarrow> int" where
  "roundHalfEven x =
     (let f = \<lfloor>x\<rfloor>; r = x - of_int f
      in if r < 1/2 then f else if 1/2 < r then f + 1 else if even f then f else f + 1)"

definition roundDouble :: "rat \<Rightarrow> rat" where
  "roundDouble x =
     (if x = 0 then 0
      else let m = \<bar>x\<bar>;
               q = pow2 (binaryExponent m - 52);
               r = of_int (roundHalfEven (m / q)) * q
           in if x < 0 then - r else r)"

definition mulDouble :: "rat \<Rightarrow> rat \<Rightarrow> rat" where
  "mulDouble x y = roundDouble (x * y)"

definition addDouble :: "rat \<Rightarrow> rat \<Rightarrow> rat" where
  "addDouble x y = roundDouble (x + y)"

subsection \<open>Collection book, streak, statistics\<close>

text \<open>\<open>if (prev.collectionBook[collectionKey][item.name])\<close>: a name that is not a key reads
  as \<open>undefined\<close>, which is falsy. The book is a map from names to booleans; names that
  JavaScript would find on \<open>Object.prototype\<close> are not told apart here.\<close>

definition discovered :: "(string \<rightharpoonup> bool) \<Rightarrow> string \<Rightarrow> bool" where
  "discovered book n = (book n = Some True)"

definition updateCollectionBook :: "Item \<Rightarrow> GameState \<Rightarrow> GameState" where
  "updateCollectionBook item prev =
     (let cb = collectionBook prev in
      case item of
        WeaponItem w \<Rightarrow>
          if discovered (cb_weapons cb) (w_name w) then prev
          else prev
            \<lparr>collectionBook := cb
               \<lparr>cb_weapons := (cb_weapons cb)(w_name w \<mapsto> True),
                totalWeaponsFound := totalWeaponsFound cb + 1,
                rarityStats := (rarityStats cb)(w_rarity w := rarityStats cb (w_rarity w) + 1)\<rparr>,
             statistics := (statistics prev)
               \<lparr>itemsCollected := itemsCollected (statistics prev) + 1\<rparr>\<rparr>
      | ArmorItem a \<Rightarrow>
          if discovered (cb_armor cb) (a_name a) then prev
          else prev
            \<lparr>collectionBook := cb
               \<lparr>cb_armor := (cb_armor cb)(a_name a \<mapsto> True),
                totalArmorFound := totalArmorFound cb + 1,
                rarityStats := (rarityStats cb)(a_rarity a := rarityStats cb (a_rarity a) + 1)\<rparr>,
             statistics := (statistics prev)
               \<lparr>itemsCollected := itemsCollected (statistics prev) + 1\<rparr>\<rparr>)"

text \<open>\<open>Math.min(1 + Math.floor(newCurrent / 5) * 0.1, 2)\<close>. The literal \<open>0.1\<close> is the double
  nearest to one tenth; \<open>Math.floor(newCurrent / 5)\<close> is the integer quotient for every count
  below \<open>2^53\<close>.\<close>

definition newMultiplier :: "int \<Rightarrow> rat" where
  "newMultiplier newCurrent =
     min (addDouble 1 (mulDouble (of_int \<lfloor>of_int newCurrent / (5::rat)\<rfloor>)
                                 (roundDouble (1/10)))) 2"

definition updateKnowledgeStreak :: "nat \<Rightarrow> bool \<Rightarrow> GameState \<Rightarrow> GameState" where
  "updateKnowledgeStreak now correct prev =
     (let newCurrent = (if correct then current (knowledgeStreak prev) + 1 else 0);
          newBest = max (best (knowledgeStreak prev)) newCurrent
      in prev\<lparr>knowledgeStreak :=
           \<lparr>current = newCurrent, best = newBest, multiplier = newMultiplier newCurrent,
            lastCorrectTime =
              (if correct then Some now else lastCorrectTime (knowledgeStreak prev))\<rparr>\<rparr>)"

definition updateStatistics :: "string \<Rightarrow> bool \<Rightarrow> GameState \<Rightarrow> GameState" where
  "updateStatistics category correct prev =
     (let st = statistics prev;
          old = accuracyByCategory st category;
          oldCorrect = (case old of None \<Rightarrow> 0 | Some a \<Rightarrow> acc_correct a);
          oldTotal = (case old of None \<Rightarrow> 0 | Some a \<Rightarrow> acc_total a)
      in prev\<lparr>statistics := st
           \<lparr>totalQuestionsAnswered := totalQuestionsAnswered st + 1,
            correctAnswers := correctAnswers st + (if correct then 1 else 0),
            accuracyByCategory := (accuracyByCategory st)(category \<mapsto>
              \<lparr>acc_correct = oldCorrect + (if correct then 1 else 0),
               acc_total = oldTotal + 1\<rparr>)\<rparr>\<rparr>)"

subsection \<open>Achievements\<close>

definition rewardCoins :: "Achievement \<Rightarrow> int" where
  "rewardCoins a =
     (case ach_reward a of None \<Rightarrow> 0
      | Some r \<Rightarrow> (case reward_coins r of None \<Rightarrow> 0 | Some c \<Rightarrow> c))"

definition rewardGems :: "Achievement \<Rightarrow> int" where
  "rewardGems a =
     (case ach_reward a of None \<Rightarrow> 0
      | Some r \<Rightarrow> (case reward_gems r of None \<Rightarrow> 0 | Some g \<Rightarrow> g))"

definition checkAndUnlockAchievements :: "Collaborators \<Rightarrow> GameState \<Rightarrow> GameState" where
  "checkAndUnlockAchievements X prev =
     (let newUnlocks = checkAchievements X prev in
      if length newUnlocks > 0 then
        let bonusCoins = sum_list (map rewardCoins newUnlocks);
            bonusGems = sum_list (map rewardGems newUnlocks);
            updatedAchievements =
              map (\<lambda>existing.
                     case find (\<lambda>nu. ach_id nu = ach_id existing) newUnlocks of
                       Some newUnlock \<Rightarrow> newUnlock
                     | None \<Rightarrow> existing)
                  (achievements prev)
        in prev\<lparr>coins := coins prev + bonusCoins, gems := gems prev + bonusGems,
                achievements := updatedAchievements\<rparr>
      else prev)"

subsection \<open>Derived stats and game mode\<close>

definition updatePlayerStats :: "Collaborators \<Rightarrow> GameState \<Rightarrow> GameState" where
  "updatePlayerStats X prev =
     (let weaponAtk = (case currentWeapon (inventory prev) of
                         Some w \<Rightarrow> w_baseAtk w + (w_level w - 1) * 10
                       | None \<Rightarrow> 0);
          armorDef = (case currentArmor (inventory prev) of
                        Some a \<Rightarrow> a_baseDef a + (a_level a - 1) * 5
                      | None \<Rightarrow> 0);
          researchBonus =
            calculateResearchBonus X (level (research prev)) (tier (research prev));
          bonusMultiplier = 1 + researchBonus / 100;
          finalAtk = \<lfloor>of_int (baseAtk (playerStats prev) + weaponAtk) * bonusMultiplier\<rfloor>;
          finalDef = \<lfloor>of_int (baseDef (playerStats prev) + armorDef) * bonusMultiplier\<rfloor>;
          finalMaxHp = \<lfloor>of_int (baseHp (playerStats prev)) * bonusMultiplier\<rfloor>
      in prev\<lparr>playerStats := (playerStats prev)
           \<lparr>atk := finalAtk, def := finalDef, maxHp := finalMaxHp,
            hp := min (hp (playerStats prev)) finalMaxHp\<rparr>\<rparr>)"

definition setGameMode :: "Mode \<Rightarrow> GameState \<Rightarrow> GameState" where
  "setGameMode mode prev =
     prev\<lparr>gameMode := (gameMode prev)
       \<lparr>gm_current := mode,
        speedModeActive := (mode = Speed),
        survivalLives := (if mode = Survival then maxSurvivalLives (gameMode prev)
                          else survivalLives (gameMode prev))\<rparr>\<rparr>"

subsection \<open>Equipment\<close>

text \<open>Each operation below is written as the source has it: the function handed to
  \<open>setGameState\<close> (suffix \<open>_updater\<close>) and, where the callback then calls
  \<open>updatePlayerStats()\<close> or \<open>checkAndUnlockAchievements()\<close>, the composition with those
  updaters, which the queue applies next. These calls stand after the \<open>setGameState\<close>
  call, so they run also when the updater returned \<open>prev\<close>.\<close>

definition equipWeapon_updater :: "Weapon \<Rightarrow> GameState \<Rightarrow> GameState" where
  "equipWeapon_updater weapon prev =
     prev\<lparr>inventory := (inventory prev)\<lparr>currentWeapon := Some weapon\<rparr>\<rparr>"

definition equipWeapon :: "Collaborators \<Rightarrow> Weapon \<Rightarrow> GameState \<Rightarrow> GameState" where
  "equipWeapon X weapon s = updatePlayerStats X (equipWeapon_updater weapon s)"

definition equipArmor_updater :: "Armor \<Rightarrow> GameState \<Rightarrow> GameState" where
  "equipArmor_updater armr prev =
     prev\<lparr>inventory := (inventory prev)\<lparr>currentArmor := Some armr\<rparr>\<rparr>"

definition equipArmor :: "Collaborators \<Rightarrow> Armor \<Rightarrow> GameState \<Rightarrow> GameState" where
  "equipArmor X armr s = updatePlayerStats X (equipArmor_updater armr s)"

text \<open>\<open>{ ...w, level: w.level + 1, upgradeCost: Math.floor(w.upgradeCost * 1.5),
  sellPrice: Math.floor(w.sellPrice * 1.2) }\<close>\<close>

definition upgradedWeapon :: "Weapon \<Rightarrow> Weapon" where
  "upgradedWeapon w =
     w\<lparr>w_level := w_level w + 1,
       w_upgradeCost := \<lfloor>of_int (w_upgradeCost w) * (15/10 :: rat)\<rfloor>,
       w_sellPrice := \<lfloor>of_int (w_sellPrice w) * (12/10 :: rat)\<rfloor>\<rparr>"

definition upgradedArmor :: "Armor \<Rightarrow> Armor" where
  "upgradedArmor a =
     a\<lparr>a_level := a_level a + 1,
       a_upgradeCost := \<lfloor>of_int (a_upgradeCost a) * (15/10 :: rat)\<rfloor>,
       a_sellPrice := \<lfloor>of_int (a_sellPrice a) * (12/10 :: rat)\<rfloor>\<rparr>"

text \<open>\<open>prev.inventory.currentWeapon?.id === weaponId\<close>: false when nothing is equipped.\<close>

definition currentWeaponHasId :: "GameState \<Rightarrow> string \<Rightarrow> bool" where
  "currentWeaponHasId prev weaponId =
     (case currentWeapon (inventory prev) of Some cw \<Rightarrow> w_id cw = weaponId | None \<Rightarrow> False)"

definition currentArmorHasId :: "GameState \<Rightarrow> string \<Rightarrow> bool" where
  "currentArmorHasId prev armorId =
     (case currentArmor (inventory prev) of Some ca \<Rightarrow> a_id ca = armorId | None \<Rightarrow> False)"

definition upgradeWeapon_updater :: "string \<Rightarrow> GameState \<Rightarrow> GameState" where
  "upgradeWeapon_updater weaponId prev =
     (case find (\<lambda>w. w_id w = weaponId) (weapons (inventory prev)) of
        None \<Rightarrow> prev
      | Some weapon \<Rightarrow>
          if gems prev < w_upgradeCost weapon then prev
          else
            let updatedWeapons =
                  map (\<lambda>w. if w_id w = weaponId then upgradedWeapon w else w)
                      (weapons (inventory prev));
                updatedCurrentWeapon =
                  (if currentWeaponHasId prev weaponId
                   then find (\<lambda>w. w_id w = weaponId) updatedWeapons
                   else currentWeapon (inventory prev))
            in prev\<lparr>gems := gems prev - w_upgradeCost weapon,
                    inventory := (inventory prev)
                      \<lparr>weapons := updatedWeapons, currentWeapon := updatedCurrentWeapon\<rparr>\<rparr>)"

definition upgradeWeapon :: "Collaborators \<Rightarrow> string \<Rightarrow> GameState \<Rightarrow> GameState" where
  "upgradeWeapon X weaponId s = updatePlayerStats X (upgradeWeapon_updater weaponId s)"

definition upgradeArmor_updater :: "string \<Rightarrow> GameState \<Rightarrow> GameState" where
  "upgradeArmor_updater armorId prev =
     (case find (\<lambda>a. a_id a = armorId) (armor (inventory prev)) of
        None \<Rightarrow> prev
      | Some armr \<Rightarrow>
          if gems prev < a_upgradeCost armr then prev
          else
            let updatedArmor =
                  map (\<lambda>a. if a_id a = armorId then upgradedArmor a else a)
                      (armor (inventory prev));
                updatedCurrentArmor =
                  (if currentArmorHasId prev armorId
                   then find (\<lambda>a. a_id a = armorId) updatedArmor
                   else currentArmor (inventory prev))
            in prev\<lparr>gems := gems prev - a_upgradeCost armr,
                    inventory := (inventory prev)
                      \<lparr>armor := updatedArmor, currentArmor := updatedCurrentArmor\<rparr>\<rparr>)"

definition upgradeArmor :: "Collaborators \<Rightarrow> string \<Rightarrow> GameState \<Rightarrow> GameState" where
  "upgradeArmor X armorId s = updatePlayerStats X (upgradeArmor_updater armorId s)"

definition sellWeapon :: "string \<Rightarrow> GameState \<Rightarrow> GameState" where
  "sellWeapon weaponId prev =
     (case find (\<lambda>w. w_id w = weaponId) (weapons (inventory prev)) of
        None \<Rightarrow> prev
      | Some weapon \<Rightarrow>
          if currentWeaponHasId prev weaponId then prev
          else prev\<lparr>coins := coins prev + w_sellPrice weapon,
                    inventory := (inventory prev)
                      \<lparr>weapons := filter (\<lambda>w. w_id w \<noteq> weaponId) (weapons (inventory prev))\<rparr>\<rparr>)"

definition sellArmor :: "string \<Rightarrow> GameState \<Rightarrow> GameState" where
  "sellArmor armorId prev =
     (case find (\<lambda>a. a_id a = armorId) (armor (inventory prev)) of
        None \<Rightarrow> prev
      | Some armr \<Rightarrow>
          if currentArmorHasId prev armorId then prev
          else prev\<lparr>coins := coins prev + a_sellPrice armr,
                    inventory := (inventory prev)
                      \<lparr>armor := filter (\<lambda>a. a_id a \<noteq> armorId) (armor (inventory prev))\<rparr>\<rparr>)"

subsection \<open>Research and chests\<close>

definition researchCost :: int where
  "researchCost = 150"

definition upgradeResearch_updater :: "GameState \<Rightarrow> GameState" where
  "upgradeResearch_updater prev =
     (if coins prev < researchCost then prev
      else
        let newLevel = level (research prev) + 1;
            newTier = \<lfloor>of_int newLevel / (10::rat)\<rfloor>
        in prev\<lparr>coins := coins prev - researchCost,
                research := \<lparr>level = newLevel, tier = newTier,
                             totalSpent = totalSpent (research prev) + researchCost\<rparr>\<rparr>)"

definition upgradeResearch :: "Collaborators \<Rightarrow> GameState \<Rightarrow> GameState" where
  "upgradeResearch X s =
     checkAndUnlockAchievements X (updatePlayerStats X (upgradeResearch_updater s))"

fun weaponsOf :: "Item list \<Rightarrow> Weapon list" where
  "weaponsOf [] = []"
| "weaponsOf (WeaponItem w # items) = w # weaponsOf items"
| "weaponsOf (ArmorItem a # items) = weaponsOf items"

fun armorOf :: "Item list \<Rightarrow> Armor list" where
  "armorOf [] = []"
| "armorOf (WeaponItem w # items) = armorOf items"
| "armorOf (ArmorItem a # items) = a # armorOf items"

definition openChest_updater :: "int \<Rightarrow> int \<Rightarrow> Item list \<Rightarrow> GameState \<Rightarrow> GameState" where
  "openChest_updater chestCost finalBonusGems items prev =
     prev\<lparr>coins := coins prev - chestCost,
          gems := gems prev + finalBonusGems,
          inventory := (inventory prev)
            \<lparr>weapons := weapons (inventory prev) @ weaponsOf items,
             armor := armor (inventory prev) @ armorOf items\<rparr>,
          statistics := (statistics prev)
            \<lparr>chestsOpened := chestsOpened (statistics prev) + 1,
             gemsEarned := gemsEarned (statistics prev) + finalBonusGems\<rparr>\<rparr>"

text \<open>\<open>items\<close> are the \<open>numItems\<close> (2 or 3) results of \<open>generateWeapon\<close>/\<open>generateArmor\<close> in the
  order drawn, \<open>bonusGems\<close> is \<open>Math.floor(Math.random() * 10) + 5\<close>, \<open>rewardType\<close> the last
  coin flip. The guard and the streak multiplier read \<open>gameState\<close>, the state the callback
  was created for. The result is the returned \<open>ChestReward | null\<close> and the next state.\<close>

definition openChest ::
  "Collaborators \<Rightarrow> int \<Rightarrow> Item list \<Rightarrow> int \<Rightarrow> ChestType \<Rightarrow> GameState
     \<Rightarrow> ChestReward option \<times> GameState" where
  "openChest X chestCost items bonusGems rewardType gameState =
     (if coins gameState < chestCost then (None, gameState)
      else
        let collected = fold updateCollectionBook items gameState;
            streakMultiplier = multiplier (knowledgeStreak gameState);
            finalBonusGems = \<lfloor>mulDouble (of_int bonusGems) streakMultiplier\<rfloor>
        in (Some \<lparr>chest_type = rewardType, chest_items = items\<rparr>,
            checkAndUnlockAchievements X
              (openChest_updater chestCost finalBonusGems items collected)))"

subsection \<open>Combat\<close>

text \<open>\<open>enemy\<close> is the result of \<open>generateEnemy(gameState.zone)\<close>.\<close>

definition startCombat :: "Enemy \<Rightarrow> GameState \<Rightarrow> GameState" where
  "startCombat enemy prev =
     prev\<lparr>currentEnemy := Some enemy,
          inCombat := True,
          playerStats := (playerStats prev)
            \<lparr>hp := (if gm_current (gameMode prev) = Survival then hp (playerStats prev)
                    else maxHp (playerStats prev))\<rparr>,
          combatLog := [''You encounter a '' @ e_name enemy @ '' in Zone ''
                          @ showInt (e_zone enemy) @ ''!'']\<rparr>"

text \<open>The reward multipliers of the win branch, before \<open>coinMultiplier *= multiplier\<close> and
  \<open>gemMultiplier *= multiplier\<close> apply the streak multiplier; 1.5 and 1.25 are doubles.\<close>

definition coinMultiplier :: "Mode \<Rightarrow> rat" where
  "coinMultiplier m = (if m = Speed then 15/10 else if m = Survival then 2 else 1)"

definition gemMultiplier :: "Mode \<Rightarrow> rat" where
  "gemMultiplier m = (if m = Speed then 125/100 else if m = Survival then 2 else 1)"

text \<open>The updater of \<open>attack\<close> once the guard \<open>!prev.currentEnemy || !prev.inCombat\<close> has
  passed, with the enemy at hand. \<open>coinRoll\<close> is \<open>Math.floor(Math.random() * 15)\<close> and
  \<open>gemRoll\<close> is \<open>Math.floor(Math.random() * 3)\<close>. The source first sets the flags
  \<open>combatEnded\<close> and \<open>playerWon\<close> and then branches on them; here each branch is taken
  where its flag is set: \<open>newEnemyHp \<le> 0\<close> is the win, \<open>newPlayerHp \<le> 0\<close> the loss, and
  the last \<open>else\<close> of each half is the combat that goes on. \<open>log1\<close>, \<open>log2\<close>, \<open>log3\<close> are
  \<open>newCombatLog\<close> after each \<open>push\<close>.\<close>

definition resolveAttack :: "int \<Rightarrow> int \<Rightarrow> bool \<Rightarrow> Enemy \<Rightarrow> GameState \<Rightarrow> GameState" where
  "resolveAttack coinRoll gemRoll hit enemy prev =
     (if hit then
        let damage = max 1 (atk (playerStats prev) - e_def enemy);
            newEnemyHp = max 0 (e_hp enemy - damage);
            log1 = combatLog prev
              @ [''You deal '' @ showInt damage @ '' damage to the '' @ e_name enemy @ ''!'']
        in if newEnemyHp \<le> 0 then
             let log2 = log1 @ [''You defeated the '' @ e_name enemy @ ''!''];
                 coinMul = mulDouble (coinMultiplier (gm_current (gameMode prev)))
                                     (multiplier (knowledgeStreak prev));
                 gemMul = mulDouble (gemMultiplier (gm_current (gameMode prev)))
                                    (multiplier (knowledgeStreak prev));
                 baseCoins = zone prev * 8 + coinRoll;
                 baseGems = gemRoll + 1;
                 earnedCoins = \<lfloor>mulDouble (of_int baseCoins) coinMul\<rfloor>;
                 earnedGems = \<lfloor>mulDouble (of_int baseGems) gemMul\<rfloor>;
                 log3 = log2 @ [''You earned '' @ showInt earnedCoins @ '' coins and ''
                                  @ showInt earnedGems @ '' gems!''];
                 newZone = zone prev + 1;
                 newIsPremium = (newZone \<ge> 50)
             in prev\<lparr>coins := coins prev + earnedCoins,
                     gems := gems prev + earnedGems,
                     zone := newZone,
                     isPremium := newIsPremium,
                     currentEnemy := None,
                     inCombat := False,
                     combatLog := log3,
                     statistics := (statistics prev)
                       \<lparr>zonesReached := max (zonesReached (statistics prev)) newZone,
                        coinsEarned := coinsEarned (statistics prev) + earnedCoins,
                        gemsEarned := gemsEarned (statistics prev) + earnedGems\<rparr>\<rparr>
           else prev\<lparr>currentEnemy := Some (enemy\<lparr>e_hp := newEnemyHp\<rparr>),
                     playerStats := (playerStats prev)\<lparr>hp := hp (playerStats prev)\<rparr>,
                     combatLog := log1\<rparr>
      else
        let damage = max 1 (e_atk enemy - def (playerStats prev));
            newPlayerHp = max 0 (hp (playerStats prev) - damage);
            log1 = combatLog prev
              @ [''You missed! The '' @ e_name enemy @ '' deals '' @ showInt damage
                   @ '' damage to you!'']
        in if newPlayerHp \<le> 0 then
             let log2 = log1 @ [''You were defeated by the '' @ e_name enemy @ ''...''];
                 log3 = (if gm_current (gameMode prev) = Survival
                            \<and> survivalLives (gameMode prev) - 1 \<le> 0
                         then log2 @ [''Game Over! No lives remaining.''] else log2)
             in if gm_current (gameMode prev) = Survival then
                  let newGameMode = (gameMode prev)
                        \<lparr>survivalLives := survivalLives (gameMode prev) - 1\<rparr>
                  in if survivalLives newGameMode \<le> 0 then
                       prev\<lparr>zone := 1,
                            currentEnemy := None,
                            inCombat := False,
                            combatLog := log3,
                            playerStats := (playerStats prev)\<lparr>hp := 0\<rparr>,
                            gameMode := initialGameMode\<lparr>gm_current := Normal\<rparr>,
                            knowledgeStreak := (knowledgeStreak prev)\<lparr>current := 0\<rparr>\<rparr>
                     else
                       prev\<lparr>currentEnemy := None,
                            inCombat := False,
                            combatLog := log3,
                            playerStats := (playerStats prev)\<lparr>hp := newPlayerHp\<rparr>,
                            gameMode := newGameMode\<rparr>
                else
                  prev\<lparr>currentEnemy := None,
                       inCombat := False,
                       combatLog := log3,
                       playerStats := (playerStats prev)\<lparr>hp := newPlayerHp\<rparr>,
                       gameMode := gameMode prev\<rparr>
           else prev\<lparr>currentEnemy := Some (enemy\<lparr>e_hp := e_hp enemy\<rparr>),
                     playerStats := (playerStats prev)\<lparr>hp := newPlayerHp\<rparr>,
                     combatLog := log1\<rparr>)"

text \<open>\<open>attack(hit, category?)\<close>. Inside its updater, behind the guard, the source calls
  \<open>updateStatistics(category, hit)\<close> (when \<open>category\<close> is truthy: present and not the empty
  string) and \<open>updateKnowledgeStreak(hit)\<close>. Both only queue a further updater; the combat
  is resolved from \<open>prev\<close> as it was handed in. What becomes of the two queued updaters is
  decided by React. When it runs the attack updater while rendering, they are applied to
  its result, statistics first. When the hook has no update pending (the last one returned
  \<open>prev\<close>, as a refused \<open>sellWeapon\<close> does), React runs the attack updater eagerly, at the
  call of \<open>setGameState\<close>, and keeps the state it computed: the two updaters queued meanwhile
  are discarded. \<open>eager\<close> says which of the two happens. The achievement check that
  \<open>attack\<close> schedules with \<open>setTimeout\<close> is the separate transition
  \<open>checkAndUnlockAchievements\<close>.\<close>

definition attack ::
  "bool \<Rightarrow> nat \<Rightarrow> int \<Rightarrow> int \<Rightarrow> bool \<Rightarrow> string option \<Rightarrow> GameState \<Rightarrow> GameState" where
  "attack eager now coinRoll gemRoll hit category prev =
     (case currentEnemy prev of
        None \<Rightarrow> prev
      | Some enemy \<Rightarrow>
          if \<not> inCombat prev then prev
          else
            let resolved = resolveAttack coinRoll gemRoll hit enemy prev;
                counted = (case category of
                             None \<Rightarrow> resolved
                           | Some c \<Rightarrow> if c = [] then resolved
                                       else updateStatistics c hit resolved)
            in if eager then resolved else updateKnowledgeStreak now hit counted)"

subsection \<open>Timer, persistence, reset\<close>

definition tick :: "GameState \<Rightarrow> GameState" where
  "tick prev =
     prev\<lparr>statistics := (statistics prev)
       \<lparr>totalPlayTime := totalPlayTime (statistics prev) + 1\<rparr>\<rparr>"

text \<open>What is written to storage: the state without its combat fields.\<close>

definition stateToSave :: "GameState \<Rightarrow> GameState" where
  "stateToSave gameState = gameState\<lparr>currentEnemy := None, inCombat := False, combatLog := []\<rparr>"

text \<open>\<open>loadGameState\<close> for a snapshot that has every field (one written by \<open>stateToSave\<close>):
  each \<open>parsedState.x || default\<close> then yields \<open>parsedState.x\<close>.\<close>

definition loadGameState :: "nat \<Rightarrow> GameState \<Rightarrow> GameState" where
  "loadGameState now parsedState =
     parsedState
       \<lparr>currentEnemy := None, inCombat := False, combatLog := [],
        statistics := (statistics parsedState)\<lparr>sessionStartTime := now\<rparr>,
        isPremium := (isPremium parsedState \<or> zone parsedState \<ge> 50)\<rparr>"

definition resetGame :: "Collaborators \<Rightarrow> nat \<Rightarrow> GameState" where
  "resetGame X now = initialGameState X now"

subsection \<open>Reachable states\<close>

text \<open>The states the hook can be in: it starts from \<open>initialGameState\<close> (also after
  \<open>resetGame\<close>), and every callback it returns, the timer and a reload of what was saved
  lead from one state to the next. Arguments, draws and generated content are arbitrary.\<close>

inductive reachable :: "Collaborators \<Rightarrow> GameState \<Rightarrow> bool" for X :: Collaborators where
  r_initial: "reachable X (initialGameState X now)"
| r_equipWeapon: "reachable X s \<Longrightarrow> reachable X (equipWeapon X weapon s)"
| r_equipArmor: "reachable X s \<Longrightarrow> reachable X (equipArmor X armr s)"
| r_upgradeWeapon: "reachable X s \<Longrightarrow> reachable X (upgradeWeapon X weaponId s)"
| r_upgradeArmor: "reachable X s \<Longrightarrow> reachable X (upgradeArmor X armorId s)"
| r_sellWeapon: "reachable X s \<Longrightarrow> reachable X (sellWeapon weaponId s)"
| r_sellArmor: "reachable X s \<Longrightarrow> reachable X (sellArmor armorId s)"
| r_upgradeResearch: "reachable X s \<Longrightarrow> reachable X (upgradeResearch X s)"
| r_openChest:
    "reachable X s \<Longrightarrow> reachable X (snd (openChest X chestCost items bonusGems rewardType s))"
| r_startCombat: "reachable X s \<Longrightarrow> reachable X (startCombat enemy s)"
| r_attack: "reachable X s \<Longrightarrow> reachable X (attack eager now coinRoll gemRoll hit category s)"
| r_setGameMode: "reachable X s \<Longrightarrow> reachable X (setGameMode mode s)"
| r_checkAndUnlockAchievements:
    "reachable X s \<Longrightarrow> reachable X (checkAndUnlockAchievements X s)"
| r_tick: "reachable X s \<Longrightarrow> reachable X (tick s)"
| r_reload: "reachable X s \<Longrightarrow> reachable X (loadGameState now (stateToSave s))"

subsection \<open>Predicates on states\<close>

text \<open>The guard of \<open>updateCollectionBook\<close> as a predicate: the name of the item is already
  recorded in the book of its category.\<close>

definition alreadyDiscovered :: "Item \<Rightarrow> GameState \<Rightarrow> bool" where
  "alreadyDiscovered item s =
     (case item of
        WeaponItem w \<Rightarrow> discovered (cb_weapons (collectionBook s)) (w_name w)
      | ArmorItem a \<Rightarrow> discovered (cb_armor (collectionBook s)) (a_name a))"

text \<open>The inventory invariant of the data model: what is equipped is an entry of the
  inventory.\<close>

definition equippedInInventory :: "GameState \<Rightarrow> bool" where
  "equippedInInventory s =
     ((case currentWeapon (inventory s) of
         None \<Rightarrow> True
       | Some w \<Rightarrow> w \<in> set (weapons (inventory s)))
      \<and> (case currentArmor (inventory s) of
            None \<Rightarrow> True
          | Some a \<Rightarrow> a \<in> set (armor (inventory s))))"

text \<open>The bound on hit points together with what keeps it true from one state to the
  next: \<open>maxHp\<close> and \<open>baseHp\<close> are not negative.\<close>

definition hpBounded :: "GameState \<Rightarrow> bool" where
  "hpBounded s \<longleftrightarrow>
     hp (playerStats s) \<le> maxHp (playerStats s) \<and> 0 \<le> maxHp (playerStats s)
     \<and> 0 \<le> baseHp (playerStats s)"

text \<open>The derived stats are up to date when recomputing them changes nothing.\<close>

definition statsUpToDate :: "Collaborators \<Rightarrow> GameState \<Rightarrow> bool" where
  "statsUpToDate X s \<longleftrightarrow> updatePlayerStats X s = s"

subsection \<open>Example values\<close>

text \<open>Concrete collaborators and states on which the properties below are exercised.\<close>

definition exampleCollaborators :: Collaborators where
  "exampleCollaborators =
     \<lparr>calculateResearchBonus = (\<lambda>l t. 0),
      checkAchievements = (\<lambda>s. []),
      initializeAchievements = []\<rparr>"

definition goblin :: Enemy where
  "goblin = \<lparr>e_name = ''Goblin'', e_zone = 1, e_hp = 30, e_maxHp = 30, e_atk = 20, e_def = 5\<rparr>"

definition freshState :: GameState where
  "freshState = initialGameState exampleCollaborators 0"

definition goblinFight :: GameState where
  "goblinFight = startCombat goblin freshState"

definition dragon :: Enemy where
  "dragon = \<lparr>e_name = ''Dragon'', e_zone = 1, e_hp = 900, e_maxHp = 900, e_atk = 500, e_def = 40\<rparr>"

definition survivalFight :: GameState where
  "survivalFight = startCombat dragon (setGameMode Survival freshState)"

definition secondFight :: GameState where
  "secondFight = startCombat dragon (attack False 0 0 0 False None survivalFight)"

definition lastLifeFight :: GameState where
  "lastLifeFight = startCombat dragon (attack False 0 0 0 False None secondFight)"

definition ironSword :: Weapon where
  "ironSword =
     \<lparr>w_id = ''w1'', w_name = ''Iron Sword'', w_rarity = Common, w_baseAtk = 12, w_level = 1,
      w_upgradeCost = 5, w_sellPrice = 8\<rparr>"

definition leatherVest :: Armor where
  "leatherVest =
     \<lparr>a_id = ''a1'', a_name = ''Leather Vest'', a_rarity = Rare, a_baseDef = 6, a_level = 1,
      a_upgradeCost = 5, a_sellPrice = 8\<rparr>"

definition rustyDagger :: Weapon where
  "rustyDagger =
     \<lparr>w_id = ''d1'', w_name = ''Rusty Dagger'', w_rarity = Common, w_baseAtk = 3, w_level = 1,
      w_upgradeCost = 1, w_sellPrice = 3\<rparr>"

definition daggerState :: GameState where
  "daggerState =
     freshState\<lparr>gems := 10,
       inventory := \<lparr>weapons = [rustyDagger], armor = [leatherVest],
                      currentWeapon = Some rustyDagger, currentArmor = None\<rparr>\<rparr>"

text \<open>A survival run that has reached zone 50 and is on its last life, and the fight that
  follows its loss.\<close>

definition premiumLastLife :: GameState where
  "premiumLastLife = lastLifeFight\<lparr>zone := 50, isPremium := True\<rparr>"

definition premiumFight :: GameState where
  "premiumFight = startCombat goblin (attack False 0 0 0 False None premiumLastLife)"

definition steelAxe :: Weapon where
  "steelAxe =
     \<lparr>w_id = ''ax'', w_name = ''Steel Axe'', w_rarity = Rare, w_baseAtk = 25, w_level = 1,
      w_upgradeCost = 40, w_sellPrice = 30\<rparr>"

text \<open>A state reached by opening a chest of cost 50 that holds the axe and the vest, with
  5 bonus gems, and equipping the axe.\<close>

definition armedState :: GameState where
  "armedState =
     equipWeapon exampleCollaborators steelAxe
       (snd (openChest exampleCollaborators 50 [WeaponItem steelAxe, ArmorItem leatherVest] 5
               ChestWeapon freshState))"


section \<open>Properties\<close>

subsection \<open>The rounding gives a nearest double\<close>

lemma bitLength_pos: "0 < n \<Longrightarrow> 1 \<le> bitLength n"
proof (induction n rule: bitLength.induct)
  case (1 n)
  show ?case
  proof (cases "n div 2 \<le> 0")
    case True
    then have "bitLength (n div 2) = 0" by (simp add: bitLength.simps)
    then show ?thesis using "1.prems" by (subst bitLength.simps) simp
  next
    case False
    then have "1 \<le> bitLength (n div 2)" using "1.IH" "1.prems" by simp
    then show ?thesis using "1.prems" by (subst bitLength.simps) simp
  qed
qed

lemma bitLength_bounds:
  "0 < n \<Longrightarrow> 2 ^ nat (bitLength n - 1) \<le> n \<and> n < 2 ^ nat (bitLength n)"
proof (induction n rule: bitLength.induct)
  case (1 n)
  show ?case
  proof (cases "n = 1")
    case True
    have "bitLength 1 = 1" by (simp add: bitLength.simps [of 1] bitLength.simps [of 0])
    then show ?thesis using True by simp
  next
    case False
    then have h: "0 < n div 2" using "1.prems" by linarith
    let ?k = "bitLength (n div 2)"
    have k: "1 \<le> ?k" by (rule bitLength_pos [OF h])
    have ih: "2 ^ nat (?k - 1) \<le> n div 2" "n div 2 < 2 ^ nat ?k"
      using "1.IH" "1.prems" h by simp_all
    have bl: "bitLength n = 1 + ?k" using "1.prems" by (subst bitLength.simps) simp
    have e1: "nat (1 + ?k - 1) = Suc (nat (?k - 1))" using k by linarith
    have e2: "nat (1 + ?k) = Suc (nat ?k)" using k by linarith
    have "2 * 2 ^ nat (?k - 1) \<le> n" using ih(1) by linarith
    moreover have "n < 2 * 2 ^ nat ?k" using ih(2) by linarith
    ultimately show ?thesis unfolding bl e1 e2 by simp
  qed
qed

lemma pow2_pos: "0 < pow2 e"
  by (simp add: pow2_def)

lemma pow2_Suc: "pow2 (e + 1) = 2 * pow2 e"
proof (cases "0 \<le> e")
  case True
  then have "nat (e + 1) = Suc (nat e)" by linarith
  then show ?thesis using True by (simp add: pow2_def)
next
  case False
  then have "nat (- e) = Suc (nat (- (e + 1)))" by linarith
  then show ?thesis using False by (auto simp: pow2_def)
qed

lemma pow2_nat: "0 \<le> e \<Longrightarrow> pow2 e = 2 ^ nat e"
  by (simp add: pow2_def)

lemma pow2_diff: "0 \<le> a \<Longrightarrow> 0 \<le> b \<Longrightarrow> pow2 (a - b) = 2 ^ nat a / 2 ^ nat b"
proof -
  assume a: "0 \<le> a" and b: "0 \<le> b"
  show ?thesis
  proof (cases "b \<le> a")
    case True
    then have "nat a = nat (a - b) + nat b" using a b by linarith
    then have "(2::rat) ^ nat a = 2 ^ nat (a - b) * 2 ^ nat b" by (simp add: power_add)
    then show ?thesis using True by (simp add: pow2_def)
  next
    case False
    then have "nat b = nat (b - a) + nat a" using a b by linarith
    then have "(2::rat) ^ nat b = 2 ^ nat (b - a) * 2 ^ nat a" by (simp add: power_add)
    moreover have "- (a - b) = b - a" by simp
    ultimately show ?thesis using False by (simp add: pow2_def)
  qed
qed

lemma binaryExponent_bounds:
  assumes "0 < x"
  shows "pow2 (binaryExponent x) \<le> x \<and> x < pow2 (binaryExponent x + 1)"
proof -
  obtain a b where q: "quotient_of x = (a, b)" by (cases "quotient_of x")
  have b: "0 < b" using quotient_of_denom_pos [OF q] .
  have x: "x = of_int a / of_int b" using quotient_of_div [OF q] .
  have a: "0 < a" using assms b unfolding x by (simp add: zero_less_divide_iff)
  let ?la = "bitLength a" and ?lb = "bitLength b"
  note ba = bitLength_bounds [OF a] and bb = bitLength_bounds [OF b]
  have la: "1 \<le> ?la" and lb: "1 \<le> ?lb" using bitLength_pos a b by simp_all
  have A1: "(2::rat) ^ nat (?la - 1) \<le> of_int a"
  proof -
    have "(of_int (2 ^ nat (?la - 1)) :: rat) \<le> of_int a" using ba by (simp only: of_int_le_iff)
    then show ?thesis by simp
  qed
  have A2: "(of_int a :: rat) < 2 ^ nat ?la"
  proof -
    have "(of_int a :: rat) < of_int (2 ^ nat ?la)" using ba by (simp only: of_int_less_iff)
    then show ?thesis by simp
  qed
  have B1: "(2::rat) ^ nat (?lb - 1) \<le> of_int b"
  proof -
    have "(of_int (2 ^ nat (?lb - 1)) :: rat) \<le> of_int b" using bb by (simp only: of_int_le_iff)
    then show ?thesis by simp
  qed
  have B2: "(of_int b :: rat) < 2 ^ nat ?lb"
  proof -
    have "(of_int b :: rat) < of_int (2 ^ nat ?lb)" using bb by (simp only: of_int_less_iff)
    then show ?thesis by simp
  qed
  have bpos: "(0::rat) < of_int b" using b by simp
  have up: "x < pow2 (?la - ?lb + 1)"
  proof -
    have "of_int a / of_int b < (2::rat) ^ nat ?la / 2 ^ nat (?lb - 1)"
    proof (rule frac_less)
      show "(0::rat) \<le> of_int a" using a by simp
      show "(of_int a :: rat) < 2 ^ nat ?la" by (rule A2)
      show "(0::rat) < 2 ^ nat (?lb - 1)" by simp
      show "(2::rat) ^ nat (?lb - 1) \<le> of_int b" by (rule B1)
    qed
    then have "x < 2 ^ nat ?la / 2 ^ nat (?lb - 1)" unfolding x .
    also have "\<dots> = pow2 (?la - (?lb - 1))" using la lb by (simp add: pow2_diff)
    finally show ?thesis by (simp add: algebra_simps)
  qed
  have low: "pow2 (?la - ?lb - 1) \<le> x"
  proof -
    have "(2::rat) ^ nat (?la - 1) / 2 ^ nat ?lb \<le> of_int a / of_int b"
    proof (rule frac_le)
      show "(0::rat) \<le> of_int a" using a by simp
      show "(2::rat) ^ nat (?la - 1) \<le> of_int a" by (rule A1)
      show "(0::rat) < of_int b" by (rule bpos)
      show "(of_int b :: rat) \<le> 2 ^ nat ?lb" using B2 by simp
    qed
    then have "(2::rat) ^ nat (?la - 1) / 2 ^ nat ?lb \<le> x" unfolding x .
    moreover have "(2::rat) ^ nat (?la - 1) / 2 ^ nat ?lb = pow2 ((?la - 1) - ?lb)"
      using la lb by (simp add: pow2_diff)
    ultimately show ?thesis by (simp add: algebra_simps)
  qed
  show ?thesis
  proof (cases "x < pow2 (?la - ?lb)")
    case True
    then have "binaryExponent x = ?la - ?lb - 1" by (simp add: binaryExponent_def q)
    then show ?thesis using True low by simp
  next
    case False
    then have "binaryExponent x = ?la - ?lb" by (simp add: binaryExponent_def q)
    then show ?thesis using False up by simp
  qed
qed


lemma roundHalfEven_near: "\<bar>of_int (roundHalfEven x) - x\<bar> \<le> 1/2"
proof -
  have "of_int \<lfloor>x\<rfloor> \<le> x" "x < of_int \<lfloor>x\<rfloor> + 1" by linarith+
  then show ?thesis by (auto simp: roundHalfEven_def Let_def)
qed

lemma roundHalfEven_mono_int:
  "of_int n \<le> x \<Longrightarrow> n \<le> roundHalfEven x" "x \<le> of_int n \<Longrightarrow> roundHalfEven x \<le> n"
proof -
  assume "of_int n \<le> x"
  then have "n \<le> \<lfloor>x\<rfloor>" by (simp add: le_floor_iff)
  then show "n \<le> roundHalfEven x" by (auto simp: roundHalfEven_def Let_def)
next
  assume h: "x \<le> of_int n"
  show "roundHalfEven x \<le> n"
  proof (cases "x = of_int n")
    case True
    then show ?thesis by (simp add: roundHalfEven_def Let_def)
  next
    case False
    then have "x < of_int n" using h by simp
    then have "\<lfloor>x\<rfloor> < n" by (simp add: floor_less_iff)
    then show ?thesis by (auto simp: roundHalfEven_def Let_def)
  qed
qed

text \<open>The rounded value is a multiple of the quantum of its binade, with a significand
  between \<open>2^52\<close> and \<open>2^53\<close>, at most half a quantum away.\<close>

lemma roundDouble_nearest:
  assumes "0 < x"
  shows "\<exists>n. roundDouble x = of_int n * pow2 (binaryExponent x - 52)
           \<and> 2 ^ 52 \<le> n \<and> n \<le> 2 ^ 53
           \<and> \<bar>roundDouble x - x\<bar> \<le> pow2 (binaryExponent x - 52) / 2"
proof -
  let ?e = "binaryExponent x"
  let ?q = "pow2 (?e - 52)"
  let ?n = "roundHalfEven (x / ?q)"
  have q: "0 < ?q" by (rule pow2_pos)
  have r: "roundDouble x = of_int ?n * ?q"
    using assms by (simp add: roundDouble_def Let_def)
  have e52: "pow2 ?e = 2 ^ 52 * ?q"
  proof -
    have "pow2 ((?e - 52) + 52) = 2 ^ 52 * pow2 (?e - 52)"
    proof -
      have "pow2 (k + int m) = 2 ^ m * pow2 k" for k m
      proof (induction m)
        case 0
        show ?case by simp
      next
        case (Suc m)
        have "k + int (Suc m) = (k + int m) + 1" by simp
        then have "pow2 (k + int (Suc m)) = pow2 ((k + int m) + 1)" by (rule arg_cong)
        also have "\<dots> = 2 * pow2 (k + int m)" by (rule pow2_Suc)
        finally show ?case by (simp add: Suc.IH)
      qed
      from this [of "?e - 52" 52] show ?thesis by simp
    qed
    then show ?thesis by simp
  qed
  have e53: "pow2 (?e + 1) = 2 ^ 53 * ?q" using e52 by (simp add: pow2_Suc)
  note b = binaryExponent_bounds [OF assms]
  have lo: "(2::rat) ^ 52 \<le> x / ?q" using b q e52 by (simp add: pos_le_divide_eq)
  have hi: "x / ?q \<le> 2 ^ 53" using b q e53 by (simp add: pos_divide_le_eq)
  have n1: "2 ^ 52 \<le> ?n" using roundHalfEven_mono_int(1) [of "2 ^ 52" "x / ?q"] lo by simp
  have n2: "?n \<le> 2 ^ 53" using roundHalfEven_mono_int(2) [of "x / ?q" "2 ^ 53"] hi by simp
  have "\<bar>of_int ?n - x / ?q\<bar> * ?q \<le> 1/2 * ?q"
    using roundHalfEven_near [of "x / ?q"] q by (simp add: mult_right_mono)
  moreover have "\<bar>of_int ?n - x / ?q\<bar> * ?q = \<bar>of_int ?n * ?q - x\<bar>"
  proof -
    have "\<bar>of_int ?n - x / ?q\<bar> * ?q = \<bar>(of_int ?n - x / ?q) * ?q\<bar>"
      using q by (simp add: abs_mult)
    also have "(of_int ?n - x / ?q) * ?q = of_int ?n * ?q - x"
      using q by (simp add: field_simps)
    finally show ?thesis .
  qed
  ultimately have "\<bar>roundDouble x - x\<bar> \<le> ?q / 2" unfolding r by simp
  then show ?thesis using r n1 n2 by blast
qed

lemma roundDouble_minus: "roundDouble (- x) = - roundDouble x"
  by (simp add: roundDouble_def Let_def)

text \<open>Rounding never goes below a power of two that the number reaches.\<close>

lemma pow2_mono: "a \<le> b \<Longrightarrow> pow2 a \<le> pow2 b"
proof (induction b rule: int_ge_induct)
  case base
  show ?case by simp
next
  case (step i)
  have "pow2 i \<le> 2 * pow2 i" using pow2_pos [of i] by simp
  with step show ?case by (simp add: pow2_Suc)
qed

lemma pow2_less_imp: "pow2 a < pow2 b \<Longrightarrow> a < b"
  using pow2_mono [of b a] by (cases "a < b") auto

lemma pow2_scale: "of_int (2 ^ 52) * pow2 (e - 52) = pow2 e"
proof -
  have "pow2 (e - 52 + int n) = 2 ^ n * pow2 (e - 52)" for n
  proof (induction n)
    case 0
    show ?case by simp
  next
    case (Suc n)
    have "pow2 (e - 52 + int (Suc n)) = pow2 ((e - 52 + int n) + 1)"
      by (simp add: add.assoc)
    also have "\<dots> = 2 * pow2 (e - 52 + int n)" by (rule pow2_Suc)
    finally show ?case using Suc by simp
  qed
  from this [of 52] show ?thesis by simp
qed

lemma roundDouble_ge_pow2:
  assumes "pow2 m \<le> x"
  shows "pow2 m \<le> roundDouble x"
proof -
  have x: "0 < x" using pow2_pos [of m] assms by linarith
  let ?e = "binaryExponent x"
  from binaryExponent_bounds [OF x] have "pow2 m < pow2 (?e + 1)"
    using assms by linarith
  then have "m \<le> ?e" using pow2_less_imp by fastforce
  then have me: "pow2 m \<le> pow2 ?e" by (rule pow2_mono)
  from roundDouble_nearest [OF x] obtain n where
    n: "roundDouble x = of_int n * pow2 (?e - 52)" "2 ^ 52 \<le> n"
    by blast
  have "(of_int (2 ^ 52) :: rat) \<le> of_int n"
    using n(2) by (simp only: of_int_le_iff)
  then have "of_int (2 ^ 52) * pow2 (?e - 52) \<le> of_int n * pow2 (?e - 52)"
    using pow2_pos [of "?e - 52"] by (simp add: mult_right_mono)
  then have "pow2 ?e \<le> roundDouble x"
    by (simp only: pow2_scale n(1))
  with me show ?thesis by linarith
qed

lemma roundDouble_ge_1: "1 \<le> x \<Longrightarrow> 1 \<le> roundDouble x"
  using roundDouble_ge_pow2 [of 0 x] by (simp add: pow2_def)

lemma roundDouble_ge_2: "2 \<le> x \<Longrightarrow> 2 \<le> roundDouble x"
  using roundDouble_ge_pow2 [of 1 x] by (simp add: pow2_def)

subsection \<open>The streak multiplier and its rewards, evaluated\<close>

text \<open>\<open>1 + 0.1\<close> is the double that the literal \<open>1.1\<close> denotes and \<open>1 + 2 * 0.1\<close> the one
  that \<open>1.2\<close> denotes; \<open>1.5\<close> and \<open>2\<close> are exact. On a streak of ten in speed mode fifteen
  base coins give \<open>15 * (1.5 * 1.2) = 26.999999999999996\<close>, hence 26 coins.\<close>

lemma newMultiplier_values:
  "newMultiplier 0 = 1" "newMultiplier 1 = 1"
  "newMultiplier 5 = roundDouble (11/10)"
  "newMultiplier 10 = roundDouble (12/10)"
  "newMultiplier 25 = 15/10"
  "newMultiplier 50 = 2" "newMultiplier 55 = 2"
  by code_simp+

lemma newMultiplier_at_most_2: "newMultiplier c \<le> 2"
  by (simp add: newMultiplier_def)

text \<open>From a streak of 50 on the multiplier is 2, and it never decreases as the streak
  grows.\<close>

lemma newMultiplier_cap:
  assumes "50 \<le> c"
  shows "newMultiplier c = 2"
proof -
  let ?k = "\<lfloor>of_int c / (5::rat)\<rfloor>"
  have "(10::rat) \<le> of_int c / 5" using assms by simp
  then have "10 \<le> ?k" by (simp add: le_floor_iff)
  then have k: "(10::rat) \<le> of_int ?k" by (simp only: of_int_le_iff [symmetric, where 'a = rat] of_int_numeral)
  have d: "0 \<le> roundDouble (1/10)" "1 \<le> 10 * roundDouble (1/10)"
    by code_simp+
  have "10 * roundDouble (1/10) \<le> of_int ?k * roundDouble (1/10)"
    using k d(1) by (rule mult_right_mono)
  then have "1 \<le> of_int ?k * roundDouble (1/10)" using d(2) by linarith
  then have "1 \<le> mulDouble (of_int ?k) (roundDouble (1/10))"
    unfolding mulDouble_def by (rule roundDouble_ge_1)
  then have "2 \<le> 1 + mulDouble (of_int ?k) (roundDouble (1/10))" by simp
  then have "2 \<le> addDouble 1 (mulDouble (of_int ?k) (roundDouble (1/10)))"
    unfolding addDouble_def by (rule roundDouble_ge_2)
  then show ?thesis by (simp add: newMultiplier_def)
qed

lemma newMultiplier_tier: "newMultiplier c = newMultiplier (5 * (c div 5))"
proof -
  have "\<lfloor>of_int c / (5::rat)\<rfloor> = c div 5"
    using floor_divide_of_int_eq [of c 5, where ?'a = rat] by simp
  moreover have "\<lfloor>of_int (5 * (c div 5)) / (5::rat)\<rfloor> = c div 5"
    by simp
  ultimately show ?thesis by (simp only: newMultiplier_def)
qed

lemma newMultiplier_steps:
  "newMultiplier 0 \<le> newMultiplier 5" "newMultiplier 5 \<le> newMultiplier 10"
  "newMultiplier 10 \<le> newMultiplier 15" "newMultiplier 15 \<le> newMultiplier 20"
  "newMultiplier 20 \<le> newMultiplier 25" "newMultiplier 25 \<le> newMultiplier 30"
  "newMultiplier 30 \<le> newMultiplier 35" "newMultiplier 35 \<le> newMultiplier 40"
  "newMultiplier 40 \<le> newMultiplier 45"
  by code_simp+

lemma newMultiplier_step:
  assumes "0 \<le> k" and "k < 9"
  shows "newMultiplier (5 * k) \<le> newMultiplier (5 * (k + 1))"
proof -
  from assms have "k = 0 \<or> k = 1 \<or> k = 2 \<or> k = 3 \<or> k = 4 \<or> k = 5 \<or> k = 6 \<or> k = 7 \<or> k = 8"
    by arith
  then show ?thesis using newMultiplier_steps by auto
qed

lemma newMultiplier_tiers_mono:
  assumes "0 \<le> k" and "k \<le> k'"
  shows "newMultiplier (5 * k) \<le> newMultiplier (5 * k')"
  using assms(2)
proof (induction k' rule: int_ge_induct)
  case base
  show ?case by simp
next
  case (step i)
  show ?case
  proof (cases "i < 9")
    case True
    then have "newMultiplier (5 * i) \<le> newMultiplier (5 * (i + 1))"
      using assms(1) step.hyps by (intro newMultiplier_step) auto
    with step.IH show ?thesis by linarith
  next
    case False
    then have "50 \<le> 5 * (i + 1)" by simp
    then have "newMultiplier (5 * (i + 1)) = 2" by (rule newMultiplier_cap)
    then show ?thesis by (simp add: newMultiplier_def)
  qed
qed

lemma newMultiplier_mono:
  assumes "0 \<le> c" and "c \<le> c'"
  shows "newMultiplier c \<le> newMultiplier c'"
proof -
  have "0 \<le> c div 5" using assms(1) by simp
  moreover have "c div 5 \<le> c' div 5" using assms(2) by (simp add: zdiv_mono1)
  ultimately have "newMultiplier (5 * (c div 5)) \<le> newMultiplier (5 * (c' div 5))"
    by (rule newMultiplier_tiers_mono)
  then show ?thesis using newMultiplier_tier [of c] newMultiplier_tier [of c'] by simp
qed

lemma rewards_evaluated:
  "\<lfloor>mulDouble 15 (mulDouble (15/10) (newMultiplier 10))\<rfloor> = 26"
  "\<lfloor>mulDouble 3 (mulDouble (125/100) (newMultiplier 10))\<rfloor> = 4"
  "\<lfloor>mulDouble 15 (mulDouble 1 (newMultiplier 10))\<rfloor> = 18"
  "\<lfloor>mulDouble 5 1\<rfloor> = 5"
  by code_simp+


subsection \<open>An attack in combat, field by field\<close>

text \<open>The updaters that \<open>attack\<close> queues touch only the streak and the question
  counters.\<close>

lemma queued_after_attack:
  "coins (updateKnowledgeStreak now hit s) = coins s"
  "gems (updateKnowledgeStreak now hit s) = gems s"
  "zone (updateKnowledgeStreak now hit s) = zone s"
  "isPremium (updateKnowledgeStreak now hit s) = isPremium s"
  "inCombat (updateKnowledgeStreak now hit s) = inCombat s"
  "currentEnemy (updateKnowledgeStreak now hit s) = currentEnemy s"
  "statistics (updateKnowledgeStreak now hit s) = statistics s"
  "coins (updateStatistics c hit s) = coins s"
  "gems (updateStatistics c hit s) = gems s"
  "zone (updateStatistics c hit s) = zone s"
  "isPremium (updateStatistics c hit s) = isPremium s"
  "inCombat (updateStatistics c hit s) = inCombat s"
  "currentEnemy (updateStatistics c hit s) = currentEnemy s"
  "zonesReached (statistics (updateStatistics c hit s)) = zonesReached (statistics s)"
  "coinsEarned (statistics (updateStatistics c hit s)) = coinsEarned (statistics s)"
  "gemsEarned (statistics (updateStatistics c hit s)) = gemsEarned (statistics s)"
  by (simp_all add: updateKnowledgeStreak_def updateStatistics_def Let_def)

lemma goblinFight_in_combat:
  "currentEnemy goblinFight = Some goblin" "inCombat goblinFight"
  by (simp_all add: goblinFight_def startCombat_def)

lemma attack_in_combat:
  "currentEnemy s = Some e \<Longrightarrow> inCombat s \<Longrightarrow>
   attack eager now coinRoll gemRoll hit category s
     = (if eager then resolveAttack coinRoll gemRoll hit e s
        else updateKnowledgeStreak now hit
          (case category of None \<Rightarrow> resolveAttack coinRoll gemRoll hit e s
           | Some c \<Rightarrow> if c = [] then resolveAttack coinRoll gemRoll hit e s
                       else updateStatistics c hit (resolveAttack coinRoll gemRoll hit e s)))"
  by (simp add: attack_def Let_def)

lemma queued_frame:
  "playerStats (updateKnowledgeStreak now hit s) = playerStats s"
  "gameMode (updateKnowledgeStreak now hit s) = gameMode s"
  "inventory (updateKnowledgeStreak now hit s) = inventory s"
  "research (updateKnowledgeStreak now hit s) = research s"
  "combatLog (updateKnowledgeStreak now hit s) = combatLog s"
  "current (knowledgeStreak (updateKnowledgeStreak now False s)) = 0"
  "playerStats (updateStatistics c hit s) = playerStats s"
  "gameMode (updateStatistics c hit s) = gameMode s"
  "inventory (updateStatistics c hit s) = inventory s"
  "research (updateStatistics c hit s) = research s"
  "combatLog (updateStatistics c hit s) = combatLog s"
  by (simp_all add: updateKnowledgeStreak_def updateStatistics_def Let_def)

lemma attack_fields:
  assumes "currentEnemy s = Some e" and "inCombat s"
  shows "coins (attack eager now cr gr hit cat s) = coins (resolveAttack cr gr hit e s)"
    "gems (attack eager now cr gr hit cat s) = gems (resolveAttack cr gr hit e s)"
    "zone (attack eager now cr gr hit cat s) = zone (resolveAttack cr gr hit e s)"
    "isPremium (attack eager now cr gr hit cat s) = isPremium (resolveAttack cr gr hit e s)"
    "inCombat (attack eager now cr gr hit cat s) = inCombat (resolveAttack cr gr hit e s)"
    "currentEnemy (attack eager now cr gr hit cat s) = currentEnemy (resolveAttack cr gr hit e s)"
    "playerStats (attack eager now cr gr hit cat s) = playerStats (resolveAttack cr gr hit e s)"
    "gameMode (attack eager now cr gr hit cat s) = gameMode (resolveAttack cr gr hit e s)"
    "inventory (attack eager now cr gr hit cat s) = inventory (resolveAttack cr gr hit e s)"
    "research (attack eager now cr gr hit cat s) = research (resolveAttack cr gr hit e s)"
    "combatLog (attack eager now cr gr hit cat s) = combatLog (resolveAttack cr gr hit e s)"
    "zonesReached (statistics (attack eager now cr gr hit cat s))
       = zonesReached (statistics (resolveAttack cr gr hit e s))"
    "coinsEarned (statistics (attack eager now cr gr hit cat s))
       = coinsEarned (statistics (resolveAttack cr gr hit e s))"
    "gemsEarned (statistics (attack eager now cr gr hit cat s))
       = gemsEarned (statistics (resolveAttack cr gr hit e s))"
  unfolding attack_in_combat [OF assms]
  by (cases eager; cases cat; simp add: queued_frame queued_after_attack)+

lemma startCombat_fields:
  "currentEnemy (startCombat e s) = Some e" "inCombat (startCombat e s)"
  "gameMode (startCombat e s) = gameMode s" "zone (startCombat e s) = zone s"
  "coins (startCombat e s) = coins s" "isPremium (startCombat e s) = isPremium s"
  "playerStats (startCombat e s) = (playerStats s)
     \<lparr>hp := (if gm_current (gameMode s) = Survival then hp (playerStats s)
             else maxHp (playerStats s))\<rparr>"
  by (simp_all add: startCombat_def)

subsection \<open>The streak after an attack\<close>

lemma updateKnowledgeStreak_streak:
  "knowledgeStreak (updateKnowledgeStreak now correct s) =
     \<lparr>current = (if correct then current (knowledgeStreak s) + 1 else 0),
      best = max (best (knowledgeStreak s))
               (if correct then current (knowledgeStreak s) + 1 else 0),
      multiplier = newMultiplier (if correct then current (knowledgeStreak s) + 1 else 0),
      lastCorrectTime = (if correct then Some now else lastCorrectTime (knowledgeStreak s))\<rparr>"
  by (simp add: updateKnowledgeStreak_def Let_def)

lemma resolveAttack_streak:
  "knowledgeStreak (resolveAttack cr gr True e s) = knowledgeStreak s"
  "best (knowledgeStreak (resolveAttack cr gr hit e s)) = best (knowledgeStreak s)"
  "lastCorrectTime (knowledgeStreak (resolveAttack cr gr hit e s))
     = lastCorrectTime (knowledgeStreak s)"
  by (simp_all add: resolveAttack_def Let_def)

lemma resolveAttack_questions:
  "totalQuestionsAnswered (statistics (resolveAttack cr gr hit e s))
     = totalQuestionsAnswered (statistics s)"
  "correctAnswers (statistics (resolveAttack cr gr hit e s)) = correctAnswers (statistics s)"
  by (simp_all add: resolveAttack_def Let_def)

lemma updateStatistics_streak:
  "knowledgeStreak (updateStatistics c hit s) = knowledgeStreak s"
  by (simp add: updateStatistics_def Let_def)

subsection \<open>C4: an answered question can leave the streak as it was\<close>

text \<open>
  C4 says that every answered question updates the streak: \<open>current + 1\<close> or \<open>0\<close>, \<open>best\<close>
  the maximum, \<open>multiplier = min(1 + floor(current/5) * 0.1, 2)\<close>. \<open>updateKnowledgeStreak\<close>
  does compute exactly this, and an attack whose updater React runs while rendering ends
  with it: a first correct answer in the goblin fight gives \<open>current = 1\<close>, \<open>best = 1\<close>. But
  the same answer given right after a refused \<open>sellWeapon\<close>, when React runs the attack
  updater eagerly, resolves the combat and leaves the streak at \<open>current = 0\<close> and the
  question counter at 0: the update queued inside the updater is lost.
\<close>

theorem eager_attack_loses_streak_update:
  "sellWeapon ''nope'' goblinFight = goblinFight
   \<and> currentEnemy goblinFight = Some goblin \<and> inCombat goblinFight
   \<and> knowledgeStreak goblinFight
       = \<lparr>current = 0, best = 0, multiplier = 1, lastCorrectTime = None\<rparr>
   \<and> knowledgeStreak (attack False 7 0 0 True (Some ''History'') goblinFight)
       = \<lparr>current = 1, best = 1, multiplier = 1, lastCorrectTime = Some 7\<rparr>
   \<and> totalQuestionsAnswered
        (statistics (attack False 7 0 0 True (Some ''History'') goblinFight)) = 1
   \<and> inCombat (attack True 7 0 0 True (Some ''History'') (sellWeapon ''nope'' goblinFight))
       = False
   \<and> knowledgeStreak
        (attack True 7 0 0 True (Some ''History'') (sellWeapon ''nope'' goblinFight))
       = \<lparr>current = 0, best = 0, multiplier = 1, lastCorrectTime = None\<rparr>
   \<and> totalQuestionsAnswered
        (statistics
          (attack True 7 0 0 True (Some ''History'') (sellWeapon ''nope'' goblinFight))) = 0"
proof -
  have refused: "sellWeapon ''nope'' goblinFight = goblinFight"
    by (simp add: sellWeapon_def goblinFight_def startCombat_def freshState_def
        initialGameState_def initialInventory_def)
  have ks: "knowledgeStreak goblinFight
      = \<lparr>current = 0, best = 0, multiplier = 1, lastCorrectTime = None\<rparr>"
    by (simp add: goblinFight_def startCombat_def freshState_def initialGameState_def
        initialKnowledgeStreak_def)
  have q: "totalQuestionsAnswered (statistics goblinFight) = 0"
    by (simp add: goblinFight_def startCombat_def freshState_def initialGameState_def
        initialStatistics_def)
  have rendered: "attack False 7 0 0 True (Some ''History'') goblinFight
      = updateKnowledgeStreak 7 True
          (updateStatistics ''History'' True (resolveAttack 0 0 True goblin goblinFight))"
    by (simp add: attack_def goblinFight_in_combat)
  have eager: "attack True 7 0 0 True (Some ''History'') goblinFight
      = resolveAttack 0 0 True goblin goblinFight"
    by (simp add: attack_def goblinFight_in_combat)
  have won: "inCombat (resolveAttack 0 0 True goblin goblinFight) = False"
    by (simp add: resolveAttack_def Let_def goblinFight_def startCombat_def freshState_def
        initialGameState_def initialPlayerStats_def goblin_def)
  have counted: "totalQuestionsAnswered
      (statistics (updateKnowledgeStreak 7 True
          (updateStatistics ''History'' True (resolveAttack 0 0 True goblin goblinFight)))) = 1"
    by (simp add: updateKnowledgeStreak_def updateStatistics_def Let_def
        resolveAttack_questions q)
  show ?thesis
    unfolding refused rendered eager
    using goblinFight_in_combat ks won counted
    by (simp add: updateKnowledgeStreak_streak updateStatistics_streak resolveAttack_streak
        resolveAttack_questions q newMultiplier_values)
qed

subsection \<open>C2: winning a combat\<close>







subsection \<open>The loss branch in survival mode\<close>

lemma lost_last_life:
  assumes "gm_current (gameMode s) = Survival"
    and "max 0 (hp (playerStats s) - max 1 (e_atk e - def (playerStats s))) \<le> 0"
    and "survivalLives (gameMode s) - 1 \<le> 0"
  shows "zone (resolveAttack cr gr False e s) = 1"
    "gameMode (resolveAttack cr gr False e s) = initialGameMode"
    "playerStats (resolveAttack cr gr False e s) = (playerStats s)\<lparr>hp := 0\<rparr>"
    "isPremium (resolveAttack cr gr False e s) = isPremium s"
    "current (knowledgeStreak (resolveAttack cr gr False e s)) = 0"
  unfolding resolveAttack_def Let_def using assms by (simp_all add: initialGameMode_def)

lemma lost_with_lives_left:
  assumes "gm_current (gameMode s) = Survival"
    and "max 0 (hp (playerStats s) - max 1 (e_atk e - def (playerStats s))) \<le> 0"
    and "0 < survivalLives (gameMode s) - 1"
  shows "zone (resolveAttack cr gr False e s) = zone s"
    "gameMode (resolveAttack cr gr False e s)
       = (gameMode s)\<lparr>survivalLives := survivalLives (gameMode s) - 1\<rparr>"
    "playerStats (resolveAttack cr gr False e s) = (playerStats s)\<lparr>hp := 0\<rparr>"
  unfolding resolveAttack_def Let_def using assms by simp_all

lemma loss_frame:
  assumes "max 0 (hp (playerStats s) - max 1 (e_atk e - def (playerStats s))) \<le> 0"
  shows "\<not> inCombat (resolveAttack cr gr False e s)"
    "currentEnemy (resolveAttack cr gr False e s) = None"
    "inventory (resolveAttack cr gr False e s) = inventory s"
    "coins (resolveAttack cr gr False e s) = coins s"
    "gems (resolveAttack cr gr False e s) = gems s"
    "research (resolveAttack cr gr False e s) = research s"
  unfolding resolveAttack_def Let_def using assms by simp_all

text \<open>The example fights: three lives, then two, then one.\<close>

lemma survivalFight_facts:
  "currentEnemy survivalFight = Some dragon" "inCombat survivalFight"
  "gm_current (gameMode survivalFight) = Survival"
  "survivalLives (gameMode survivalFight) = 3"
  "playerStats survivalFight = initialPlayerStats"
  "zone survivalFight = 1"
  by (simp_all add: survivalFight_def startCombat_def setGameMode_def freshState_def
      initialGameState_def initialGameMode_def)

lemma dragon_lethal: "max 0 (hp initialPlayerStats - max 1 (e_atk dragon - def initialPlayerStats)) = 0"
  by (simp add: initialPlayerStats_def dragon_def)

lemma secondFight_facts:
  "currentEnemy secondFight = Some dragon" "inCombat secondFight"
  "gm_current (gameMode secondFight) = Survival"
  "survivalLives (gameMode secondFight) = 2"
  "hp (playerStats secondFight) = 0" "def (playerStats secondFight) = 0"
  "zone secondFight = 1"
proof -
  have lost: "max 0 (hp (playerStats survivalFight)
      - max 1 (e_atk dragon - def (playerStats survivalFight))) \<le> 0"
    by (simp add: survivalFight_facts dragon_lethal)
  have lives: "0 < survivalLives (gameMode survivalFight) - 1"
    by (simp add: survivalFight_facts)
  note k = lost_with_lives_left [OF survivalFight_facts(3) lost lives]
  note a = attack_fields [OF survivalFight_facts(1,2)]
  show "currentEnemy secondFight = Some dragon" "inCombat secondFight"
    "gm_current (gameMode secondFight) = Survival"
    "survivalLives (gameMode secondFight) = 2"
    "hp (playerStats secondFight) = 0" "def (playerStats secondFight) = 0"
    "zone secondFight = 1"
    unfolding secondFight_def
    by (simp_all add: startCombat_fields a k survivalFight_facts initialPlayerStats_def)
qed

lemma lastLifeFight_facts:
  "currentEnemy lastLifeFight = Some dragon" "inCombat lastLifeFight"
  "gm_current (gameMode lastLifeFight) = Survival"
  "survivalLives (gameMode lastLifeFight) = 1"
  "hp (playerStats lastLifeFight) = 0" "def (playerStats lastLifeFight) = 0"
  "zone lastLifeFight = 1"
proof -
  have lost: "max 0 (hp (playerStats secondFight)
      - max 1 (e_atk dragon - def (playerStats secondFight))) \<le> 0"
    by (simp add: secondFight_facts dragon_def)
  have lives: "0 < survivalLives (gameMode secondFight) - 1"
    by (simp add: secondFight_facts)
  note k = lost_with_lives_left [OF secondFight_facts(3) lost lives]
  note a = attack_fields [OF secondFight_facts(1,2)]
  show "currentEnemy lastLifeFight = Some dragon" "inCombat lastLifeFight"
    "gm_current (gameMode lastLifeFight) = Survival"
    "survivalLives (gameMode lastLifeFight) = 1"
    "hp (playerStats lastLifeFight) = 0" "def (playerStats lastLifeFight) = 0"
    "zone lastLifeFight = 1"
    unfolding lastLifeFight_def
    by (simp_all add: startCombat_fields a k secondFight_facts)
qed

subsection \<open>C3: losing in survival mode\<close>

text \<open>
  C3. In survival mode, an attack that misses and brings the player's hit points to 0
  takes one life. If the decremented count is 0 or less, the state is reset: \<open>zone\<close> is 1,
  the game mode is the initial one (normal, \<open>survivalLives = maxSurvivalLives = 3\<close>),
  \<open>knowledgeStreak.current\<close> is 0, \<open>hp\<close> is 0. If lives remain, the game mode keeps
  everything but the decremented count, the zone stays and \<open>hp\<close> is 0. In both cases combat
  is cleared and inventory, coins, gems and research are unchanged.
\<close>

theorem survival_loss:
  assumes "currentEnemy s = Some e" and "inCombat s"
    and "gm_current (gameMode s) = Survival"
    and "max 0 (hp (playerStats s) - max 1 (e_atk e - def (playerStats s))) = 0"
  shows
    "(let s' = attack eager now coinRoll gemRoll False category s;
          newLives = survivalLives (gameMode s) - 1
      in (newLives \<le> 0 \<longrightarrow>
            zone s' = 1
          \<and> gm_current (gameMode s') = Normal
          \<and> survivalLives (gameMode s') = maxSurvivalLives (gameMode s')
          \<and> gameMode s' = initialGameMode
          \<and> current (knowledgeStreak s') = 0
          \<and> hp (playerStats s') = 0)
       \<and> (0 < newLives \<longrightarrow>
            gameMode s' = (gameMode s)\<lparr>survivalLives := newLives\<rparr>
          \<and> zone s' = zone s
          \<and> playerStats s' = (playerStats s)\<lparr>hp := 0\<rparr>)
       \<and> \<not> inCombat s' \<and> currentEnemy s' = None
       \<and> inventory s' = inventory s \<and> coins s' = coins s \<and> gems s' = gems s
       \<and> research s' = research s)"
proof -
  have lost: "max 0 (hp (playerStats s) - max 1 (e_atk e - def (playerStats s))) \<le> 0"
    using assms(4) by simp
  have streak: "current (knowledgeStreak (attack eager now coinRoll gemRoll False category s)) = 0"
    if "survivalLives (gameMode s) - 1 \<le> 0"
    unfolding attack_in_combat [OF assms(1,2)]
    by (simp add: queued_frame lost_last_life(5) [OF assms(3) lost that])
  show ?thesis
    unfolding Let_def attack_fields [OF assms(1,2)]
    using lost_last_life [OF assms(3) lost] lost_with_lives_left [OF assms(3) lost]
      loss_frame [OF lost] streak
    by (simp add: initialGameMode_def)
qed

theorem survival_loss_witness:
  "currentEnemy survivalFight = Some dragon \<and> inCombat survivalFight
   \<and> gm_current (gameMode survivalFight) = Survival
   \<and> max 0 (hp (playerStats survivalFight)
              - max 1 (e_atk dragon - def (playerStats survivalFight))) = 0
   \<and> 0 < survivalLives (gameMode survivalFight) - 1
   \<and> survivalLives (gameMode (attack False 0 0 0 False None survivalFight)) = 2
   \<and> gm_current (gameMode (attack False 0 0 0 False None survivalFight)) = Survival
   \<and> coins (attack False 0 0 0 False None survivalFight) = 100
   \<and> currentEnemy lastLifeFight = Some dragon \<and> inCombat lastLifeFight
   \<and> gm_current (gameMode lastLifeFight) = Survival
   \<and> max 0 (hp (playerStats lastLifeFight)
              - max 1 (e_atk dragon - def (playerStats lastLifeFight))) = 0
   \<and> survivalLives (gameMode lastLifeFight) - 1 \<le> 0
   \<and> zone (attack False 0 0 0 False None lastLifeFight) = 1
   \<and> gameMode (attack False 0 0 0 False None lastLifeFight) = initialGameMode
   \<and> current (knowledgeStreak (attack False 0 0 0 False None lastLifeFight)) = 0"
proof -
  have l2: "max 0 (hp (playerStats lastLifeFight)
              - max 1 (e_atk dragon - def (playerStats lastLifeFight))) = 0"
    by (simp add: lastLifeFight_facts dragon_def)
  have c: "coins survivalFight = 100"
    by (simp add: survivalFight_def startCombat_def setGameMode_def freshState_def
      initialGameState_def)
  show ?thesis
    using survival_loss [of survivalFight dragon False 0 0 0 None]
      survival_loss [of lastLifeFight dragon False 0 0 0 None]
      survivalFight_facts lastLifeFight_facts dragon_lethal l2 c
    by (simp add: Let_def)
qed


subsection \<open>C10: hit points are not restored between survival fights\<close>

text \<open>
  C10. In survival mode, a lost combat with lives remaining leaves \<open>hp\<close> at 0; the next
  \<open>startCombat\<close> (still in survival mode) keeps \<open>hp = 0\<close>; and one missed answer in that
  combat, whatever the enemy, ends it at once as another loss, taking a further life (or
  resetting the run when that was the last one).
\<close>

theorem survival_hp_not_restored:
  assumes "currentEnemy s = Some e" and "inCombat s"
    and "gm_current (gameMode s) = Survival"
    and "max 0 (hp (playerStats s) - max 1 (e_atk e - def (playerStats s))) = 0"
    and "0 < survivalLives (gameMode s) - 1"
  shows
    "(let s1 = attack eager now coinRoll gemRoll False category s;
          s2 = startCombat nextEnemy s1;
          s3 = attack eager' now' coinRoll' gemRoll' False category' s2
      in hp (playerStats s1) = 0 \<and> gm_current (gameMode s1) = Survival \<and> \<not> inCombat s1
       \<and> hp (playerStats s2) = 0 \<and> inCombat s2 \<and> currentEnemy s2 = Some nextEnemy
       \<and> \<not> inCombat s3 \<and> currentEnemy s3 = None \<and> hp (playerStats s3) = 0
       \<and> (if survivalLives (gameMode s) - 2 \<le> 0
           then zone s3 = 1 \<and> gameMode s3 = initialGameMode
           else gameMode s3 = (gameMode s)\<lparr>survivalLives := survivalLives (gameMode s) - 2\<rparr>))"
proof -
  let ?s1 = "attack eager now coinRoll gemRoll False category s"
  let ?s2 = "startCombat nextEnemy ?s1"
  have lost: "max 0 (hp (playerStats s) - max 1 (e_atk e - def (playerStats s))) \<le> 0"
    using assms(4) by simp
  note a1 = attack_fields [OF assms(1,2)]
  note k1 = lost_with_lives_left [OF assms(3) lost assms(5)]
  note f1 = loss_frame [OF lost]
  have s1: "hp (playerStats ?s1) = 0" "gm_current (gameMode ?s1) = Survival"
    "\<not> inCombat ?s1" "survivalLives (gameMode ?s1) = survivalLives (gameMode s) - 1"
    "zone ?s1 = zone s"
    by (simp_all add: a1 k1 f1 assms(3))
  have s2: "currentEnemy ?s2 = Some nextEnemy" "inCombat ?s2"
    "gm_current (gameMode ?s2) = Survival" "hp (playerStats ?s2) = 0"
    "survivalLives (gameMode ?s2) = survivalLives (gameMode s) - 1"
    "gameMode ?s2 = (gameMode s)\<lparr>survivalLives := survivalLives (gameMode s) - 1\<rparr>"
    by (simp_all add: startCombat_fields s1 a1 k1 assms(3))
  have lost2: "max 0 (hp (playerStats ?s2)
      - max 1 (e_atk nextEnemy - def (playerStats ?s2))) \<le> 0"
    by (simp add: s2)
  note a2 = attack_fields [OF s2(1,2)]
  note f2 = loss_frame [OF lost2]
  have hp3: "hp (playerStats (resolveAttack coinRoll' gemRoll' False nextEnemy ?s2)) = 0"
    using lost_with_lives_left(3) [OF s2(3) lost2] lost_last_life(3) [OF s2(3) lost2]
    by (cases "0 < survivalLives (gameMode ?s2) - 1") simp_all
  have last: "zone (resolveAttack coinRoll' gemRoll' False nextEnemy ?s2) = 1
      \<and> gameMode (resolveAttack coinRoll' gemRoll' False nextEnemy ?s2) = initialGameMode"
    if "survivalLives (gameMode s) - 2 \<le> 0"
    using lost_last_life(1,2) [OF s2(3) lost2] that s2(5) by simp
  have more: "gameMode (resolveAttack coinRoll' gemRoll' False nextEnemy ?s2)
      = (gameMode s)\<lparr>survivalLives := survivalLives (gameMode s) - 2\<rparr>"
    if "\<not> survivalLives (gameMode s) - 2 \<le> 0"
    using lost_with_lives_left(2) [OF s2(3) lost2] that s2(5,6) by simp
  show ?thesis
    unfolding Let_def
    using s1 s2 hp3 last more by (simp add: a2 f2)
qed

theorem survival_hp_not_restored_witness:
  "currentEnemy survivalFight = Some dragon \<and> inCombat survivalFight
   \<and> gm_current (gameMode survivalFight) = Survival
   \<and> max 0 (hp (playerStats survivalFight)
              - max 1 (e_atk dragon - def (playerStats survivalFight))) = 0
   \<and> 0 < survivalLives (gameMode survivalFight) - 1
   \<and> hp (playerStats secondFight) = 0 \<and> inCombat secondFight
   \<and> \<not> inCombat (attack False 5 3 1 False (Some ''Science'') secondFight)
   \<and> survivalLives (gameMode (attack False 5 3 1 False (Some ''Science'') secondFight)) = 1"
proof -
  show ?thesis
    using survival_hp_not_restored
      [of survivalFight dragon False 0 0 0 None dragon False 5 3 1 "Some ''Science''"]
      survivalFight_facts dragon_lethal secondFight_facts
    by (simp add: Let_def secondFight_def)
qed

subsection \<open>C9: the collection book records a name once\<close>

lemma recorded_is_unchanged:
  "alreadyDiscovered item s \<Longrightarrow> updateCollectionBook item s = s"
  by (cases item) (simp_all add: alreadyDiscovered_def updateCollectionBook_def Let_def)

lemma recording_discovers:
  "alreadyDiscovered item (updateCollectionBook item s)"
  by (cases item)
     (simp_all add: alreadyDiscovered_def updateCollectionBook_def Let_def discovered_def)

lemma recording_discovers_name:
  "w_name w2 = w_name w \<Longrightarrow>
     alreadyDiscovered (WeaponItem w2) (updateCollectionBook (WeaponItem w) s)"
  "a_name a2 = a_name a \<Longrightarrow>
     alreadyDiscovered (ArmorItem a2) (updateCollectionBook (ArmorItem a) s)"
  by (simp_all add: alreadyDiscovered_def updateCollectionBook_def Let_def discovered_def)

lemma duplicates_change_nothing:
  "alreadyDiscovered item s \<Longrightarrow> fold updateCollectionBook (replicate n item) s = s"
  by (induction n) (simp_all add: recorded_is_unchanged)

text \<open>
  C9. Recording an item whose name is already in the collection book of its category
  returns the state unchanged, so \<open>totalWeaponsFound\<close>/\<open>totalArmorFound\<close>, the rarity
  tally and \<open>itemsCollected\<close> are not incremented again. After one recording the name is
  in the book, hence recording is idempotent, for the same item, for any number of
  duplicates, and for any other item of that category with the same name.
\<close>

theorem collection_book_records_once:
  "(alreadyDiscovered item s \<longrightarrow>
       updateCollectionBook item s = s
     \<and> totalWeaponsFound (collectionBook (updateCollectionBook item s))
         = totalWeaponsFound (collectionBook s)
     \<and> totalArmorFound (collectionBook (updateCollectionBook item s))
         = totalArmorFound (collectionBook s)
     \<and> rarityStats (collectionBook (updateCollectionBook item s))
         = rarityStats (collectionBook s)
     \<and> itemsCollected (statistics (updateCollectionBook item s))
         = itemsCollected (statistics s))
   \<and> alreadyDiscovered item (updateCollectionBook item s)
   \<and> updateCollectionBook item (updateCollectionBook item s) = updateCollectionBook item s
   \<and> fold updateCollectionBook (replicate n item) (updateCollectionBook item s)
       = updateCollectionBook item s
   \<and> (w_name w2 = w_name w \<longrightarrow>
        updateCollectionBook (WeaponItem w2) (updateCollectionBook (WeaponItem w) s)
          = updateCollectionBook (WeaponItem w) s)
   \<and> (a_name a2 = a_name a \<longrightarrow>
        updateCollectionBook (ArmorItem a2) (updateCollectionBook (ArmorItem a) s)
          = updateCollectionBook (ArmorItem a) s)"
  using recorded_is_unchanged recording_discovers recording_discovers_name
    duplicates_change_nothing
  by simp

theorem collection_book_records_once_witness:
  "(let found = updateCollectionBook (WeaponItem ironSword) freshState in
      alreadyDiscovered (WeaponItem ironSword) found
    \<and> \<not> alreadyDiscovered (WeaponItem ironSword) freshState
    \<and> totalWeaponsFound (collectionBook found) = 1
    \<and> rarityStats (collectionBook found) Common = 1
    \<and> itemsCollected (statistics found) = 1
    \<and> updateCollectionBook (WeaponItem ironSword) found = found
    \<and> w_name (ironSword\<lparr>w_id := ''w2'', w_rarity := Epic\<rparr>) = w_name ironSword
    \<and> updateCollectionBook (WeaponItem (ironSword\<lparr>w_id := ''w2'', w_rarity := Epic\<rparr>)) found = found
    \<and> a_name (leatherVest\<lparr>a_id := ''a2''\<rparr>) = a_name leatherVest
    \<and> updateCollectionBook (ArmorItem (leatherVest\<lparr>a_id := ''a2''\<rparr>))
          (updateCollectionBook (ArmorItem leatherVest) found)
        = updateCollectionBook (ArmorItem leatherVest) found)"
proof -
  let ?found = "updateCollectionBook (WeaponItem ironSword) freshState"
  have fresh: "\<not> alreadyDiscovered (WeaponItem ironSword) freshState"
    by (simp add: alreadyDiscovered_def freshState_def initialGameState_def
        initialCollectionBook_def discovered_def)
  then have counts: "totalWeaponsFound (collectionBook ?found) = 1"
    "rarityStats (collectionBook ?found) Common = 1"
    "itemsCollected (statistics ?found) = 1"
    by (simp_all add: updateCollectionBook_def alreadyDiscovered_def Let_def freshState_def
        initialGameState_def initialCollectionBook_def initialStatistics_def ironSword_def)
  show ?thesis
    using collection_book_records_once [of "WeaponItem ironSword" ?found 0
        "ironSword\<lparr>w_id := ''w2'', w_rarity := Epic\<rparr>" ironSword
        "leatherVest\<lparr>a_id := ''a2''\<rparr>" leatherVest]
      collection_book_records_once [of "WeaponItem ironSword" freshState 0
        "ironSword\<lparr>w_id := ''w2'', w_rarity := Epic\<rparr>" ironSword
        "leatherVest\<lparr>a_id := ''a2''\<rparr>" leatherVest]
      fresh counts
    by (simp add: Let_def)
qed

subsection \<open>Upgrading an item\<close>

lemma floor_times_15_10: "\<lfloor>(of_int c :: rat) * (15/10)\<rfloor> = (3 * c) div 2"
proof -
  have "(of_int c :: rat) * (15/10) = of_int (3 * c) / of_int 2" by simp
  then show ?thesis by (simp only: floor_divide_of_int_eq)
qed

lemma floor_times_12_10: "\<lfloor>(of_int c :: rat) * (12/10)\<rfloor> = (6 * c) div 5"
proof -
  have "(of_int c :: rat) * (12/10) = of_int (6 * c) / of_int 5" by simp
  then show ?thesis by (simp only: floor_divide_of_int_eq)
qed

lemma updatePlayerStats_frame:
  "coins (updatePlayerStats X s) = coins s"
  "gems (updatePlayerStats X s) = gems s"
  "zone (updatePlayerStats X s) = zone s"
  "inventory (updatePlayerStats X s) = inventory s"
  "currentEnemy (updatePlayerStats X s) = currentEnemy s"
  "inCombat (updatePlayerStats X s) = inCombat s"
  "combatLog (updatePlayerStats X s) = combatLog s"
  "research (updatePlayerStats X s) = research s"
  "isPremium (updatePlayerStats X s) = isPremium s"
  "achievements (updatePlayerStats X s) = achievements s"
  "collectionBook (updatePlayerStats X s) = collectionBook s"
  "knowledgeStreak (updatePlayerStats X s) = knowledgeStreak s"
  "gameMode (updatePlayerStats X s) = gameMode s"
  "statistics (updatePlayerStats X s) = statistics s"
  by (simp_all add: updatePlayerStats_def Let_def)

lemma upgradedWeapon_fields:
  "w_id (upgradedWeapon w) = w_id w" "w_name (upgradedWeapon w) = w_name w"
  "w_rarity (upgradedWeapon w) = w_rarity w" "w_baseAtk (upgradedWeapon w) = w_baseAtk w"
  "w_level (upgradedWeapon w) = w_level w + 1"
  "w_upgradeCost (upgradedWeapon w) = (3 * w_upgradeCost w) div 2"
  "w_sellPrice (upgradedWeapon w) = (6 * w_sellPrice w) div 5"
  unfolding upgradedWeapon_def floor_times_15_10 floor_times_12_10 by simp_all

lemma upgradedArmor_fields:
  "a_id (upgradedArmor a) = a_id a" "a_name (upgradedArmor a) = a_name a"
  "a_rarity (upgradedArmor a) = a_rarity a" "a_baseDef (upgradedArmor a) = a_baseDef a"
  "a_level (upgradedArmor a) = a_level a + 1"
  "a_upgradeCost (upgradedArmor a) = (3 * a_upgradeCost a) div 2"
  "a_sellPrice (upgradedArmor a) = (6 * a_sellPrice a) div 5"
  unfolding upgradedArmor_def floor_times_15_10 floor_times_12_10 by simp_all

lemma find_map_upgraded:
  assumes "\<And>x. key (f x) = key x"
  shows "find (\<lambda>x. key x = k) (map (\<lambda>x. if key x = k then f x else x) xs)
           = map_option f (find (\<lambda>x. key x = k) xs)"
  by (induction xs) (simp_all add: assms)

lemma upgradeWeapon_updater_done:
  assumes "find (\<lambda>w. w_id w = weaponId) (weapons (inventory s)) = Some weapon"
    and "w_upgradeCost weapon \<le> gems s"
  shows "upgradeWeapon_updater weaponId s =
     s\<lparr>gems := gems s - w_upgradeCost weapon,
       inventory := (inventory s)
         \<lparr>weapons := map (\<lambda>w. if w_id w = weaponId then upgradedWeapon w else w)
                        (weapons (inventory s)),
          currentWeapon := (if currentWeaponHasId s weaponId then Some (upgradedWeapon weapon)
                            else currentWeapon (inventory s))\<rparr>\<rparr>"
  using assms
  by (simp add: upgradeWeapon_updater_def Let_def
      find_map_upgraded [where key = w_id and f = upgradedWeapon] upgradedWeapon_fields)

lemma upgradeArmor_updater_done:
  assumes "find (\<lambda>a. a_id a = armorId) (armor (inventory s)) = Some armr"
    and "a_upgradeCost armr \<le> gems s"
  shows "upgradeArmor_updater armorId s =
     s\<lparr>gems := gems s - a_upgradeCost armr,
       inventory := (inventory s)
         \<lparr>armor := map (\<lambda>a. if a_id a = armorId then upgradedArmor a else a)
                      (armor (inventory s)),
          currentArmor := (if currentArmorHasId s armorId then Some (upgradedArmor armr)
                           else currentArmor (inventory s))\<rparr>\<rparr>"
  using assms
  by (simp add: upgradeArmor_updater_def Let_def
      find_map_upgraded [where key = a_id and f = upgradedArmor] upgradedArmor_fields)

lemma scaled_cost: 
  "(0::int) \<le> c \<Longrightarrow> c \<le> (3 * c) div 2" "(c < (3 * c) div 2) = (2 \<le> c)"
  "(0::int) \<le> p \<Longrightarrow> p \<le> (6 * p) div 5" "(p < (6 * p) div 5) = (5 \<le> p)"
  by presburger+

lemma daggerState_facts:
  "weapons (inventory daggerState) = [rustyDagger]"
  "armor (inventory daggerState) = [leatherVest]"
  "currentWeapon (inventory daggerState) = Some rustyDagger"
  "currentArmor (inventory daggerState) = None"
  "gems daggerState = 10"
  by (simp_all add: daggerState_def)

subsection \<open>C6: what an upgrade does to an item\<close>

text \<open>
  C6, as the code has it. When the id denotes an inventory entry (the first with that id)
  and the gem balance is at least its \<open>upgradeCost\<close>, upgrading deducts that cost and
  replaces every entry with that id by its upgraded version: \<open>level + 1\<close>,
  \<open>upgradeCost = floor(upgradeCost * 1.5)\<close>, \<open>sellPrice = floor(sellPrice * 1.2)\<close>. The
  equipped reference, when it has that id, becomes the upgraded entry. The level always
  grows; a non-negative \<open>upgradeCost\<close> or \<open>sellPrice\<close> never shrinks, and it grows strictly
  exactly when \<open>upgradeCost \<ge> 2\<close>, respectively \<open>sellPrice \<ge> 5\<close>. The same holds for armor.
\<close>

theorem upgrade_item:
  "(find (\<lambda>w. w_id w = weaponId) (weapons (inventory s)) = Some weapon
      \<and> w_upgradeCost weapon \<le> gems s \<longrightarrow>
     (let s' = upgradeWeapon X weaponId s in
        gems s' = gems s - w_upgradeCost weapon
      \<and> weapons (inventory s')
          = map (\<lambda>w. if w_id w = weaponId then upgradedWeapon w else w) (weapons (inventory s))
      \<and> find (\<lambda>w. w_id w = weaponId) (weapons (inventory s')) = Some (upgradedWeapon weapon)
      \<and> armor (inventory s') = armor (inventory s)
      \<and> currentWeapon (inventory s')
          = (if currentWeaponHasId s weaponId then Some (upgradedWeapon weapon)
             else currentWeapon (inventory s))))
   \<and> (find (\<lambda>a. a_id a = armorId) (armor (inventory s)) = Some armr
      \<and> a_upgradeCost armr \<le> gems s \<longrightarrow>
     (let s' = upgradeArmor X armorId s in
        gems s' = gems s - a_upgradeCost armr
      \<and> armor (inventory s')
          = map (\<lambda>a. if a_id a = armorId then upgradedArmor a else a) (armor (inventory s))
      \<and> find (\<lambda>a. a_id a = armorId) (armor (inventory s')) = Some (upgradedArmor armr)
      \<and> weapons (inventory s') = weapons (inventory s)
      \<and> currentArmor (inventory s')
          = (if currentArmorHasId s armorId then Some (upgradedArmor armr)
             else currentArmor (inventory s))))
   \<and> w_level (upgradedWeapon w) = w_level w + 1
   \<and> w_upgradeCost (upgradedWeapon w) = \<lfloor>of_int (w_upgradeCost w) * (15/10 :: rat)\<rfloor>
   \<and> w_sellPrice (upgradedWeapon w) = \<lfloor>of_int (w_sellPrice w) * (12/10 :: rat)\<rfloor>
   \<and> (0 \<le> w_upgradeCost w \<longrightarrow> w_upgradeCost w \<le> w_upgradeCost (upgradedWeapon w))
   \<and> (0 \<le> w_sellPrice w \<longrightarrow> w_sellPrice w \<le> w_sellPrice (upgradedWeapon w))
   \<and> (w_upgradeCost w < w_upgradeCost (upgradedWeapon w)) = (2 \<le> w_upgradeCost w)
   \<and> (w_sellPrice w < w_sellPrice (upgradedWeapon w)) = (5 \<le> w_sellPrice w)
   \<and> a_level (upgradedArmor a) = a_level a + 1
   \<and> a_upgradeCost (upgradedArmor a) = \<lfloor>of_int (a_upgradeCost a) * (15/10 :: rat)\<rfloor>
   \<and> a_sellPrice (upgradedArmor a) = \<lfloor>of_int (a_sellPrice a) * (12/10 :: rat)\<rfloor>
   \<and> (0 \<le> a_upgradeCost a \<longrightarrow> a_upgradeCost a \<le> a_upgradeCost (upgradedArmor a))
   \<and> (0 \<le> a_sellPrice a \<longrightarrow> a_sellPrice a \<le> a_sellPrice (upgradedArmor a))
   \<and> (a_upgradeCost a < a_upgradeCost (upgradedArmor a)) = (2 \<le> a_upgradeCost a)
   \<and> (a_sellPrice a < a_sellPrice (upgradedArmor a)) = (5 \<le> a_sellPrice a)"
proof -
  have W: "let s' = upgradeWeapon X weaponId s in
        gems s' = gems s - w_upgradeCost weapon
      \<and> weapons (inventory s')
          = map (\<lambda>w. if w_id w = weaponId then upgradedWeapon w else w) (weapons (inventory s))
      \<and> find (\<lambda>w. w_id w = weaponId) (weapons (inventory s')) = Some (upgradedWeapon weapon)
      \<and> armor (inventory s') = armor (inventory s)
      \<and> currentWeapon (inventory s')
          = (if currentWeaponHasId s weaponId then Some (upgradedWeapon weapon)
             else currentWeapon (inventory s))"
    if h: "find (\<lambda>w. w_id w = weaponId) (weapons (inventory s)) = Some weapon"
      "w_upgradeCost weapon \<le> gems s"
    unfolding Let_def upgradeWeapon_def updatePlayerStats_frame
      upgradeWeapon_updater_done [OF h]
    by (simp add: find_map_upgraded [where key = w_id and f = upgradedWeapon]
        upgradedWeapon_fields h)
  have A: "let s' = upgradeArmor X armorId s in
        gems s' = gems s - a_upgradeCost armr
      \<and> armor (inventory s')
          = map (\<lambda>a. if a_id a = armorId then upgradedArmor a else a) (armor (inventory s))
      \<and> find (\<lambda>a. a_id a = armorId) (armor (inventory s')) = Some (upgradedArmor armr)
      \<and> weapons (inventory s') = weapons (inventory s)
      \<and> currentArmor (inventory s')
          = (if currentArmorHasId s armorId then Some (upgradedArmor armr)
             else currentArmor (inventory s))"
    if h: "find (\<lambda>a. a_id a = armorId) (armor (inventory s)) = Some armr"
      "a_upgradeCost armr \<le> gems s"
    unfolding Let_def upgradeArmor_def updatePlayerStats_frame
      upgradeArmor_updater_done [OF h]
    by (simp add: find_map_upgraded [where key = a_id and f = upgradedArmor]
        upgradedArmor_fields h)
  have raw: "w_upgradeCost (upgradedWeapon w) = \<lfloor>of_int (w_upgradeCost w) * (15/10 :: rat)\<rfloor>"
    "w_sellPrice (upgradedWeapon w) = \<lfloor>of_int (w_sellPrice w) * (12/10 :: rat)\<rfloor>"
    "a_upgradeCost (upgradedArmor a) = \<lfloor>of_int (a_upgradeCost a) * (15/10 :: rat)\<rfloor>"
    "a_sellPrice (upgradedArmor a) = \<lfloor>of_int (a_sellPrice a) * (12/10 :: rat)\<rfloor>"
    by (simp_all add: upgradedWeapon_def upgradedArmor_def)
  have rest: "w_level (upgradedWeapon w) = w_level w + 1"
    "0 \<le> w_upgradeCost w \<longrightarrow> w_upgradeCost w \<le> w_upgradeCost (upgradedWeapon w)"
    "0 \<le> w_sellPrice w \<longrightarrow> w_sellPrice w \<le> w_sellPrice (upgradedWeapon w)"
    "(w_upgradeCost w < w_upgradeCost (upgradedWeapon w)) = (2 \<le> w_upgradeCost w)"
    "(w_sellPrice w < w_sellPrice (upgradedWeapon w)) = (5 \<le> w_sellPrice w)"
    "a_level (upgradedArmor a) = a_level a + 1"
    "0 \<le> a_upgradeCost a \<longrightarrow> a_upgradeCost a \<le> a_upgradeCost (upgradedArmor a)"
    "0 \<le> a_sellPrice a \<longrightarrow> a_sellPrice a \<le> a_sellPrice (upgradedArmor a)"
    "(a_upgradeCost a < a_upgradeCost (upgradedArmor a)) = (2 \<le> a_upgradeCost a)"
    "(a_sellPrice a < a_sellPrice (upgradedArmor a)) = (5 \<le> a_sellPrice a)"
    by (simp_all add: upgradedWeapon_fields upgradedArmor_fields scaled_cost)
  from W A raw rest show ?thesis by blast
qed


theorem upgrade_item_witness:
  "find (\<lambda>w. w_id w = ''d1'') (weapons (inventory daggerState)) = Some rustyDagger
   \<and> w_upgradeCost rustyDagger \<le> gems daggerState
   \<and> gems (upgradeWeapon exampleCollaborators ''d1'' daggerState) = 9
   \<and> currentWeapon (inventory (upgradeWeapon exampleCollaborators ''d1'' daggerState))
       = Some (rustyDagger\<lparr>w_level := 2\<rparr>)
   \<and> find (\<lambda>a. a_id a = ''a1'') (armor (inventory daggerState)) = Some leatherVest
   \<and> a_upgradeCost leatherVest \<le> gems daggerState
   \<and> gems (upgradeArmor exampleCollaborators ''a1'' daggerState) = 5
   \<and> armor (inventory (upgradeArmor exampleCollaborators ''a1'' daggerState))
       = [leatherVest\<lparr>a_level := 2, a_upgradeCost := 7, a_sellPrice := 9\<rparr>]
   \<and> 0 \<le> w_upgradeCost ironSword \<and> 0 \<le> w_sellPrice ironSword
   \<and> w_upgradeCost (upgradedWeapon ironSword) = 7 \<and> w_sellPrice (upgradedWeapon ironSword) = 9
   \<and> 0 \<le> a_upgradeCost leatherVest \<and> 0 \<le> a_sellPrice leatherVest
   \<and> w_level (upgradedWeapon ironSword) = 2"
proof -
  have d: "upgradedWeapon rustyDagger = rustyDagger\<lparr>w_level := 2\<rparr>"
    unfolding upgradedWeapon_def floor_times_15_10 floor_times_12_10
    by (simp add: rustyDagger_def)
  have v: "upgradedArmor leatherVest
      = leatherVest\<lparr>a_level := 2, a_upgradeCost := 7, a_sellPrice := 9\<rparr>"
    unfolding upgradedArmor_def floor_times_15_10 floor_times_12_10
    by (simp add: leatherVest_def)
  have i: "w_upgradeCost ironSword = 5" "w_sellPrice ironSword = 8" "w_level ironSword = 1"
    "w_upgradeCost rustyDagger = 1" "a_upgradeCost leatherVest = 5"
    "a_sellPrice leatherVest = 8" "w_id rustyDagger = ''d1''" "a_id leatherVest = ''a1''"
    by (simp_all add: ironSword_def rustyDagger_def leatherVest_def)
  have fl: "\<lfloor>(5::rat) * (15/10)\<rfloor> = 7" "\<lfloor>(8::rat) * (12/10)\<rfloor> = 9"
    by code_simp+
  show ?thesis
    using upgrade_item [where weaponId = "''d1''" and s = daggerState and weapon = rustyDagger
        and armorId = "''a1''" and armr = leatherVest and X = exampleCollaborators
        and w = ironSword and a = leatherVest]
      daggerState_facts d v i fl
    by (simp add: Let_def currentWeaponHasId_def)
qed

text \<open>The claim as written says that an upgrade always increases \<open>upgradeCost\<close> and
  \<open>sellPrice\<close>. A weapon with \<open>upgradeCost = 1\<close> and \<open>sellPrice = 3\<close> keeps both:
  \<open>floor(1 * 1.5) = 1\<close> and \<open>floor(3 * 1.2) = 3\<close>.\<close>

theorem upgrade_can_leave_prices:
  "weapons (inventory daggerState) = [rustyDagger]
   \<and> w_id rustyDagger = ''d1''
   \<and> w_upgradeCost rustyDagger \<le> gems daggerState
   \<and> weapons (inventory (upgradeWeapon exampleCollaborators ''d1'' daggerState))
       = [rustyDagger\<lparr>w_level := 2\<rparr>]
   \<and> w_upgradeCost (rustyDagger\<lparr>w_level := 2\<rparr>) = w_upgradeCost rustyDagger
   \<and> w_sellPrice (rustyDagger\<lparr>w_level := 2\<rparr>) = w_sellPrice rustyDagger"
proof -
  have d: "upgradedWeapon rustyDagger = rustyDagger\<lparr>w_level := 2\<rparr>"
    unfolding upgradedWeapon_def floor_times_15_10 floor_times_12_10
    by (simp add: rustyDagger_def)
  have f: "find (\<lambda>w. w_id w = ''d1'') (weapons (inventory daggerState)) = Some rustyDagger"
    "w_upgradeCost rustyDagger \<le> gems daggerState" "w_id rustyDagger = ''d1''"
    by (simp_all add: daggerState_facts rustyDagger_def)
  show ?thesis
    unfolding upgradeWeapon_def updatePlayerStats_frame upgradeWeapon_updater_done [OF f(1,2)]
    using f d by (simp add: daggerState_facts)
qed

subsection \<open>What is equipped and what is owned\<close>

lemma equippedInInventory_iff:
  "equippedInInventory s \<longleftrightarrow>
     (\<forall>w. currentWeapon (inventory s) = Some w \<longrightarrow> w \<in> set (weapons (inventory s)))
     \<and> (\<forall>a. currentArmor (inventory s) = Some a \<longrightarrow> a \<in> set (armor (inventory s)))"
  by (simp add: equippedInInventory_def split: option.splits)

lemma upgradeWeapon_updater_refused:
  "find (\<lambda>w. w_id w = weaponId) (weapons (inventory s)) = None
     \<or> (\<exists>weapon. find (\<lambda>w. w_id w = weaponId) (weapons (inventory s)) = Some weapon
                  \<and> gems s < w_upgradeCost weapon)
   \<Longrightarrow> upgradeWeapon_updater weaponId s = s"
  by (auto simp: upgradeWeapon_updater_def)

lemma upgradeArmor_updater_refused:
  "find (\<lambda>a. a_id a = armorId) (armor (inventory s)) = None
     \<or> (\<exists>armr. find (\<lambda>a. a_id a = armorId) (armor (inventory s)) = Some armr
                \<and> gems s < a_upgradeCost armr)
   \<Longrightarrow> upgradeArmor_updater armorId s = s"
  by (auto simp: upgradeArmor_updater_def)

lemma find_Some_member: "find P xs = Some x \<Longrightarrow> x \<in> set xs \<and> P x"
  by (induction xs) (auto split: if_splits)

lemma upgradeWeapon_updater_equipped:
  assumes "equippedInInventory s"
  shows "equippedInInventory (upgradeWeapon_updater weaponId s)"
proof (cases "find (\<lambda>w. w_id w = weaponId) (weapons (inventory s))")
  case None
  then show ?thesis using assms by (simp add: upgradeWeapon_updater_refused)
next
  case (Some weapon)
  show ?thesis
  proof (cases "gems s < w_upgradeCost weapon")
    case True
    then show ?thesis using assms Some by (simp add: upgradeWeapon_updater_refused)
  next
    case False
    then have c: "w_upgradeCost weapon \<le> gems s" by simp
    have m: "weapon \<in> set (weapons (inventory s))" "w_id weapon = weaponId"
      using find_Some_member [OF Some] by simp_all
    show ?thesis
      unfolding upgradeWeapon_updater_done [OF Some c]
      using assms m
      by (auto simp: equippedInInventory_iff currentWeaponHasId_def image_iff
          split: option.splits)
  qed
qed

lemma upgradeArmor_updater_equipped:
  assumes "equippedInInventory s"
  shows "equippedInInventory (upgradeArmor_updater armorId s)"
proof (cases "find (\<lambda>a. a_id a = armorId) (armor (inventory s))")
  case None
  then show ?thesis using assms by (simp add: upgradeArmor_updater_refused)
next
  case (Some armr)
  show ?thesis
  proof (cases "gems s < a_upgradeCost armr")
    case True
    then show ?thesis using assms Some by (simp add: upgradeArmor_updater_refused)
  next
    case False
    then have c: "a_upgradeCost armr \<le> gems s" by simp
    have m: "armr \<in> set (armor (inventory s))" "a_id armr = armorId"
      using find_Some_member [OF Some] by simp_all
    show ?thesis
      unfolding upgradeArmor_updater_done [OF Some c]
      using assms m
      by (auto simp: equippedInInventory_iff currentArmorHasId_def image_iff
          split: option.splits)
  qed
qed

lemma equipped_cong:
  "inventory s' = inventory s \<Longrightarrow> equippedInInventory s' = equippedInInventory s"
  by (simp add: equippedInInventory_iff)

lemma sell_equipped:
  "equippedInInventory s \<Longrightarrow> equippedInInventory (sellWeapon weaponId s)"
  "equippedInInventory s \<Longrightarrow> equippedInInventory (sellArmor armorId s)"
  by (auto simp: sellWeapon_def sellArmor_def equippedInInventory_iff currentWeaponHasId_def
      currentArmorHasId_def split: option.splits)

lemma fold_updateCollectionBook_inventory:
  "inventory (fold updateCollectionBook items s) = inventory s"
proof (induction items arbitrary: s)
  case Nil
  show ?case by simp
next
  case (Cons item items)
  have "inventory (updateCollectionBook item s) = inventory s"
    by (cases item) (simp_all add: updateCollectionBook_def Let_def)
  then show ?case by (simp add: Cons.IH)
qed

lemma checkAndUnlockAchievements_frame:
  "inventory (checkAndUnlockAchievements X s) = inventory s"
  "playerStats (checkAndUnlockAchievements X s) = playerStats s"
  "research (checkAndUnlockAchievements X s) = research s"
  "isPremium (checkAndUnlockAchievements X s) = isPremium s"
  "zone (checkAndUnlockAchievements X s) = zone s"
  "gameMode (checkAndUnlockAchievements X s) = gameMode s"
  "currentEnemy (checkAndUnlockAchievements X s) = currentEnemy s"
  "inCombat (checkAndUnlockAchievements X s) = inCombat s"
  by (simp_all add: checkAndUnlockAchievements_def Let_def)

lemma openChest_equipped:
  "equippedInInventory s \<Longrightarrow>
     equippedInInventory (snd (openChest X chestCost items bonusGems rewardType s))"
  by (auto simp: openChest_def Let_def equippedInInventory_iff
      checkAndUnlockAchievements_frame openChest_updater_def
      fold_updateCollectionBook_inventory split: option.splits)

lemma resolveAttack_inventory:
  "inventory (resolveAttack cr gr hit e s) = inventory s"
  by (simp add: resolveAttack_def Let_def)

lemma attack_inventory: "inventory (attack eager now cr gr hit cat s) = inventory s"
proof (cases "currentEnemy s")
  case None
  then show ?thesis by (simp add: attack_def)
next
  case (Some e)
  show ?thesis
  proof (cases "inCombat s")
    case True
    show ?thesis by (simp add: attack_fields [OF Some True] resolveAttack_inventory)
  next
    case False
    then show ?thesis using Some by (simp add: attack_def)
  qed
qed

subsection \<open>C7: the equipped items are inventory entries\<close>

text \<open>
  C7, as the code has it. In the initial state nothing is equipped. From a state in which
  \<open>currentWeapon\<close> and \<open>currentArmor\<close> are absent or entries of \<open>inventory.weapons\<close> and
  \<open>inventory.armor\<close>, equipping an item that is in the inventory, upgrading, selling,
  opening a chest and every other transition lead to such a state again.
\<close>

theorem equipped_stays_in_inventory:
  "equippedInInventory (initialGameState X now)
   \<and> (equippedInInventory s \<longrightarrow>
        (weapon \<in> set (weapons (inventory s)) \<longrightarrow> equippedInInventory (equipWeapon X weapon s))
      \<and> (armr \<in> set (armor (inventory s)) \<longrightarrow> equippedInInventory (equipArmor X armr s))
      \<and> equippedInInventory (upgradeWeapon X weaponId s)
      \<and> equippedInInventory (upgradeArmor X armorId s)
      \<and> equippedInInventory (sellWeapon weaponId s)
      \<and> equippedInInventory (sellArmor armorId s)
      \<and> equippedInInventory (snd (openChest X chestCost items bonusGems rewardType s))
      \<and> equippedInInventory (upgradeResearch X s)
      \<and> equippedInInventory (startCombat enemy s)
      \<and> equippedInInventory (attack eager now coinRoll gemRoll hit category s)
      \<and> equippedInInventory (setGameMode mode s)
      \<and> equippedInInventory (checkAndUnlockAchievements X s)
      \<and> equippedInInventory (tick s)
      \<and> equippedInInventory (loadGameState now (stateToSave s)))"
proof -
  have init: "equippedInInventory (initialGameState X now)"
    by (simp add: equippedInInventory_def initialGameState_def initialInventory_def)
  have step: "(weapon \<in> set (weapons (inventory s)) \<longrightarrow> equippedInInventory (equipWeapon X weapon s))
      \<and> (armr \<in> set (armor (inventory s)) \<longrightarrow> equippedInInventory (equipArmor X armr s))
      \<and> equippedInInventory (upgradeWeapon X weaponId s)
      \<and> equippedInInventory (upgradeArmor X armorId s)
      \<and> equippedInInventory (sellWeapon weaponId s)
      \<and> equippedInInventory (sellArmor armorId s)
      \<and> equippedInInventory (snd (openChest X chestCost items bonusGems rewardType s))
      \<and> equippedInInventory (upgradeResearch X s)
      \<and> equippedInInventory (startCombat enemy s)
      \<and> equippedInInventory (attack eager now coinRoll gemRoll hit category s)
      \<and> equippedInInventory (setGameMode mode s)
      \<and> equippedInInventory (checkAndUnlockAchievements X s)
      \<and> equippedInInventory (tick s)
      \<and> equippedInInventory (loadGameState now (stateToSave s))" if inv: "equippedInInventory s"
  proof -
    have eq: "weapon \<in> set (weapons (inventory s)) \<longrightarrow> equippedInInventory (equipWeapon X weapon s)"
      "armr \<in> set (armor (inventory s)) \<longrightarrow> equippedInInventory (equipArmor X armr s)"
      using inv
      by (simp_all add: equipWeapon_def equipArmor_def equippedInInventory_iff
          updatePlayerStats_frame equipWeapon_updater_def equipArmor_updater_def)
    have up: "equippedInInventory (upgradeWeapon X weaponId s)"
      "equippedInInventory (upgradeArmor X armorId s)"
      using upgradeWeapon_updater_equipped [OF inv] upgradeArmor_updater_equipped [OF inv]
      by (simp_all add: upgradeWeapon_def upgradeArmor_def
          equipped_cong [OF updatePlayerStats_frame(4)])
    have same: "equippedInInventory (upgradeResearch X s)"
      "equippedInInventory (startCombat enemy s)"
      "equippedInInventory (attack eager now coinRoll gemRoll hit category s)"
      "equippedInInventory (setGameMode mode s)"
      "equippedInInventory (checkAndUnlockAchievements X s)"
      "equippedInInventory (tick s)"
      "equippedInInventory (loadGameState now (stateToSave s))"
      using inv
      by (simp_all add: attack_inventory
          equippedInInventory_iff upgradeResearch_def checkAndUnlockAchievements_frame
          updatePlayerStats_frame upgradeResearch_updater_def startCombat_def setGameMode_def
          tick_def loadGameState_def stateToSave_def Let_def)
    show ?thesis
      using eq up same sell_equipped [OF inv] openChest_equipped [OF inv] by simp
  qed
  show ?thesis using init step by simp
qed

theorem equipped_stays_in_inventory_witness:
  "equippedInInventory daggerState
   \<and> rustyDagger \<in> set (weapons (inventory daggerState))
   \<and> leatherVest \<in> set (armor (inventory daggerState))
   \<and> equippedInInventory (equipWeapon exampleCollaborators rustyDagger daggerState)
   \<and> equippedInInventory (equipArmor exampleCollaborators leatherVest daggerState)
   \<and> equippedInInventory (upgradeWeapon exampleCollaborators ''d1'' daggerState)
   \<and> equippedInInventory (sellWeapon ''d1'' daggerState)
   \<and> equippedInInventory (sellArmor ''a1'' daggerState)
   \<and> equippedInInventory
        (snd (openChest exampleCollaborators 50 [WeaponItem ironSword, ArmorItem leatherVest]
                7 ChestWeapon daggerState))"
proof -
  have inv: "equippedInInventory daggerState"
    by (simp add: equippedInInventory_def daggerState_facts)
  show ?thesis
    using equipped_stays_in_inventory [where s = daggerState and X = exampleCollaborators
        and weapon = rustyDagger and armr = leatherVest and weaponId = "''d1''"
        and armorId = "''a1''" and chestCost = 50
        and items = "[WeaponItem ironSword, ArmorItem leatherVest]" and bonusGems = 7
        and rewardType = ChestWeapon]
      inv
    by (simp add: daggerState_facts)
qed

text \<open>\<open>equipWeapon\<close> stores whatever item it is given: with an item that is not in the
  inventory, the state it reaches has an equipped weapon and an empty weapon list.\<close>

theorem equip_foreign_item_breaks_inventory_invariant:
  "reachable exampleCollaborators freshState
   \<and> equippedInInventory freshState
   \<and> reachable exampleCollaborators (equipWeapon exampleCollaborators ironSword freshState)
   \<and> \<not> equippedInInventory (equipWeapon exampleCollaborators ironSword freshState)
   \<and> currentWeapon (inventory (equipWeapon exampleCollaborators ironSword freshState))
       = Some ironSword
   \<and> weapons (inventory (equipWeapon exampleCollaborators ironSword freshState)) = []"
proof -
  have r: "reachable exampleCollaborators freshState"
    unfolding freshState_def by (rule r_initial)
  have r': "reachable exampleCollaborators (equipWeapon exampleCollaborators ironSword freshState)"
    by (rule r_equipWeapon [OF r])
  show ?thesis
    using r r'
    by (simp add: equippedInInventory_def equipWeapon_def updatePlayerStats_frame
        equipWeapon_updater_def freshState_def initialGameState_def initialInventory_def)
qed

subsection \<open>The premium flag\<close>

lemma lastLifeFight_stats: "playerStats lastLifeFight = initialPlayerStats\<lparr>hp := 0\<rparr>"
proof -
  have lost1: "max 0 (hp (playerStats survivalFight)
      - max 1 (e_atk dragon - def (playerStats survivalFight))) \<le> 0"
    by (simp add: survivalFight_facts dragon_lethal)
  have lives1: "0 < survivalLives (gameMode survivalFight) - 1"
    by (simp add: survivalFight_facts)
  have p2: "playerStats secondFight = initialPlayerStats\<lparr>hp := 0\<rparr>"
    unfolding secondFight_def
    by (simp add: startCombat_fields attack_fields [OF survivalFight_facts(1,2)]
        lost_with_lives_left [OF survivalFight_facts(3) lost1 lives1] survivalFight_facts)
  have lost2: "max 0 (hp (playerStats secondFight)
      - max 1 (e_atk dragon - def (playerStats secondFight))) \<le> 0"
    by (simp add: secondFight_facts dragon_def)
  have lives2: "0 < survivalLives (gameMode secondFight) - 1"
    by (simp add: secondFight_facts)
  show ?thesis
    unfolding lastLifeFight_def
    by (simp add: startCombat_fields attack_fields [OF secondFight_facts(1,2)]
        lost_with_lives_left [OF secondFight_facts(3) lost2 lives2] secondFight_facts p2)
qed

lemma premiumLastLife_facts:
  "currentEnemy premiumLastLife = Some dragon" "inCombat premiumLastLife"
  "gm_current (gameMode premiumLastLife) = Survival"
  "survivalLives (gameMode premiumLastLife) = 1"
  "playerStats premiumLastLife = initialPlayerStats\<lparr>hp := 0\<rparr>"
  "zone premiumLastLife = 50" "isPremium premiumLastLife"
  by (simp_all add: premiumLastLife_def lastLifeFight_facts lastLifeFight_stats)

text \<open>Outside the win branch of \<open>attack\<close> a true \<open>isPremium\<close> stays true; a reload keeps it
  through \<open>parsedState.isPremium || parsedState.zone >= 50\<close>.\<close>

lemma fold_updateCollectionBook_isPremium:
  "isPremium (fold updateCollectionBook items s) = isPremium s"
proof (induction items arbitrary: s)
  case Nil
  show ?case by simp
next
  case (Cons item items)
  have "isPremium (updateCollectionBook item s) = isPremium s"
    by (cases item) (simp_all add: updateCollectionBook_def Let_def)
  then show ?case by (simp add: Cons.IH)
qed

lemma resolveAttack_miss_isPremium:
  "isPremium (resolveAttack cr gr False e s) = isPremium s"
  by (simp add: resolveAttack_def Let_def)

lemma attack_miss_isPremium: "isPremium (attack eager now cr gr False cat s) = isPremium s"
proof (cases "currentEnemy s")
  case None
  then show ?thesis by (simp add: attack_def)
next
  case (Some e)
  show ?thesis
  proof (cases "inCombat s")
    case True
    show ?thesis by (simp add: attack_fields [OF Some True] resolveAttack_miss_isPremium)
  next
    case False
    then show ?thesis using Some by (simp add: attack_def)
  qed
qed

lemma premium_kept_outside_win:
  assumes "isPremium s"
  shows "isPremium (equipWeapon X weapon s)" "isPremium (equipArmor X armr s)"
    "isPremium (upgradeWeapon X weaponId s)" "isPremium (upgradeArmor X armorId s)"
    "isPremium (sellWeapon weaponId s)" "isPremium (sellArmor armorId s)"
    "isPremium (upgradeResearch X s)"
    "isPremium (snd (openChest X chestCost items bonusGems rewardType s))"
    "isPremium (startCombat enemy s)" "isPremium (attack eager now coinRoll gemRoll False category s)"
    "isPremium (setGameMode mode s)" "isPremium (checkAndUnlockAchievements X s)"
    "isPremium (tick s)" "isPremium (loadGameState now (stateToSave s))"
  using assms
  by (simp_all add: equipWeapon_def equipArmor_def upgradeWeapon_def upgradeArmor_def
      updatePlayerStats_frame equipWeapon_updater_def equipArmor_updater_def
      upgradeWeapon_updater_def upgradeArmor_updater_def sellWeapon_def sellArmor_def
      upgradeResearch_def upgradeResearch_updater_def checkAndUnlockAchievements_frame
      openChest_def openChest_updater_def fold_updateCollectionBook_isPremium
      startCombat_def attack_miss_isPremium setGameMode_def tick_def loadGameState_def
      stateToSave_def Let_def split: option.splits)

subsection \<open>C8: a win recomputes the premium flag\<close>

text \<open>
  C8 says that once \<open>isPremium\<close> is true no later transition sets it back to false. The win
  branch of \<open>attack\<close> assigns \<open>isPremium = (zone + 1 \<ge> 50)\<close> whatever the flag was. A
  survival run at zone 50 (flag true) that loses its last life is reset to zone 1 with the
  flag still true; a reload of that state keeps it true; the next win moves to zone 2 and
  sets the flag to false.
\<close>

theorem premium_cleared_by_win:
  "isPremium premiumLastLife \<and> zone premiumLastLife = 50
   \<and> isPremium premiumFight \<and> zone premiumFight = 1
   \<and> currentEnemy premiumFight = Some goblin \<and> inCombat premiumFight
   \<and> zone (attack False 0 0 0 True None premiumFight) = 2
   \<and> \<not> isPremium (attack False 0 0 0 True None premiumFight)
   \<and> isPremium (loadGameState 0 (stateToSave premiumFight))"
proof -
  have lost: "max 0 (hp (playerStats premiumLastLife)
      - max 1 (e_atk dragon - def (playerStats premiumLastLife))) \<le> 0"
    by (simp add: premiumLastLife_facts initialPlayerStats_def dragon_def)
  have last: "survivalLives (gameMode premiumLastLife) - 1 \<le> 0"
    by (simp add: premiumLastLife_facts)
  note reset = lost_last_life [OF premiumLastLife_facts(3) lost last]
  note a1 = attack_fields [OF premiumLastLife_facts(1,2)]
  have f: "isPremium premiumFight" "zone premiumFight = 1"
    "currentEnemy premiumFight = Some goblin" "inCombat premiumFight"
    "atk (playerStats premiumFight) = 50"
    unfolding premiumFight_def
    by (simp_all add: startCombat_fields a1 reset premiumLastLife_facts initialPlayerStats_def)
  have dead: "max 0 (e_hp goblin - max 1 (atk (playerStats premiumFight) - e_def goblin)) \<le> 0"
    by (simp add: f goblin_def)
  have win: "zone (resolveAttack 0 0 True goblin premiumFight) = 2"
    "\<not> isPremium (resolveAttack 0 0 True goblin premiumFight)"
    unfolding resolveAttack_def Let_def using dead by (simp_all add: f)
  show ?thesis
    using f win
    by (simp add: attack_fields [OF f(3,4)] premiumLastLife_facts loadGameState_def
        stateToSave_def)
qed

subsection \<open>Hit points in reachable states\<close>

lemma updatePlayerStats_maxHp:
  "maxHp (playerStats (updatePlayerStats X s))
     = \<lfloor>of_int (baseHp (playerStats s))
          * (1 + calculateResearchBonus X (level (research s)) (tier (research s)) / 100)\<rfloor>"
  "hp (playerStats (updatePlayerStats X s))
     = min (hp (playerStats s)) (maxHp (playerStats (updatePlayerStats X s)))"
  "baseHp (playerStats (updatePlayerStats X s)) = baseHp (playerStats s)"
  by (simp_all add: updatePlayerStats_def Let_def)

lemma updatePlayerStats_hpBounded:
  assumes "\<forall>l t. - 100 \<le> calculateResearchBonus X l t"
    and "0 \<le> baseHp (playerStats s)"
  shows "hpBounded (updatePlayerStats X s)"
proof -
  let ?b = "calculateResearchBonus X (level (research s)) (tier (research s))"
  have "0 \<le> 1 + ?b / 100" using assms(1) [rule_format, of "level (research s)" "tier (research s)"] by simp
  then have "0 \<le> of_int (baseHp (playerStats s)) * (1 + ?b / 100)"
    using assms(2) by simp
  then have "0 \<le> maxHp (playerStats (updatePlayerStats X s))"
    unfolding updatePlayerStats_maxHp(1) by simp
  then show ?thesis
    using assms(2) by (simp add: hpBounded_def updatePlayerStats_maxHp(2,3))
qed

lemma recomputed_hpBounded:
  assumes "\<forall>l t. - 100 \<le> calculateResearchBonus X l t"
    and "hpBounded s" and "playerStats s' = playerStats s"
  shows "hpBounded (updatePlayerStats X s')"
proof -
  have "0 \<le> baseHp (playerStats s')" using assms(2,3) by (simp add: hpBounded_def)
  then show ?thesis by (rule updatePlayerStats_hpBounded [OF assms(1)])
qed

lemma resolveAttack_playerStats:
  "playerStats (resolveAttack cr gr hit e s)
     = (playerStats s)\<lparr>hp := hp (playerStats (resolveAttack cr gr hit e s))\<rparr>"
  "hp (playerStats (resolveAttack cr gr hit e s)) \<le> max 0 (hp (playerStats s))"
  by (auto simp: resolveAttack_def Let_def max_def)

lemma attack_playerStats:
  "playerStats (attack eager now cr gr hit cat s)
     = (playerStats s)\<lparr>hp := hp (playerStats (attack eager now cr gr hit cat s))\<rparr>
   \<and> hp (playerStats (attack eager now cr gr hit cat s)) \<le> max (hp (playerStats s)) 0"
proof (cases "currentEnemy s")
  case None
  then show ?thesis by (simp add: attack_def)
next
  case (Some e)
  show ?thesis
  proof (cases "inCombat s")
    case True
    show ?thesis
      using resolveAttack_playerStats [of cr gr hit e s]
      by (simp add: attack_fields [OF Some True] max.commute)
  next
    case False
    then show ?thesis using Some by (simp add: attack_def)
  qed
qed

lemma hpBounded_cong: "playerStats s' = playerStats s \<Longrightarrow> hpBounded s' = hpBounded s"
  by (simp add: hpBounded_def)

lemma fold_updateCollectionBook_playerStats:
  "playerStats (fold updateCollectionBook items s) = playerStats s"
proof (induction items arbitrary: s)
  case Nil
  show ?case by simp
next
  case (Cons item items)
  have "playerStats (updateCollectionBook item s) = playerStats s"
    by (cases item) (simp_all add: updateCollectionBook_def Let_def)
  then show ?case by (simp add: Cons.IH)
qed

lemma updaters_playerStats:
  "playerStats (equipWeapon_updater weapon s) = playerStats s"
  "playerStats (equipArmor_updater armr s) = playerStats s"
  "playerStats (upgradeWeapon_updater weaponId s) = playerStats s"
  "playerStats (upgradeArmor_updater armorId s) = playerStats s"
  "playerStats (upgradeResearch_updater s) = playerStats s"
  "playerStats (sellWeapon weaponId s) = playerStats s"
  "playerStats (sellArmor armorId s) = playerStats s"
  "playerStats (snd (openChest X chestCost items bonusGems rewardType s)) = playerStats s"
  "playerStats (setGameMode mode s) = playerStats s"
  "playerStats (tick s) = playerStats s"
  "playerStats (loadGameState now (stateToSave s)) = playerStats s"
  by (simp_all add: equipWeapon_updater_def equipArmor_updater_def upgradeWeapon_updater_def
      upgradeArmor_updater_def upgradeResearch_updater_def sellWeapon_def sellArmor_def
      openChest_def openChest_updater_def checkAndUnlockAchievements_frame
      fold_updateCollectionBook_playerStats setGameMode_def tick_def loadGameState_def
      stateToSave_def Let_def split: option.splits)

lemma reachable_hpBounded:
  assumes "\<forall>l t. - 100 \<le> calculateResearchBonus X l t" and "reachable X s"
  shows "hpBounded s"
  using assms(2)
proof (induction rule: reachable.induct)
  case (r_initial now)
  show ?case by (simp add: hpBounded_def initialGameState_def initialPlayerStats_def)
next
  case (r_equipWeapon s weapon)
  then show ?case
    by (simp add: equipWeapon_def recomputed_hpBounded [OF assms(1) _ updaters_playerStats(1)])
next
  case (r_equipArmor s armr)
  then show ?case
    by (simp add: equipArmor_def recomputed_hpBounded [OF assms(1) _ updaters_playerStats(2)])
next
  case (r_upgradeWeapon s weaponId)
  then show ?case
    by (simp add: upgradeWeapon_def recomputed_hpBounded [OF assms(1) _ updaters_playerStats(3)])
next
  case (r_upgradeArmor s armorId)
  then show ?case
    by (simp add: upgradeArmor_def recomputed_hpBounded [OF assms(1) _ updaters_playerStats(4)])
next
  case (r_sellWeapon s weaponId)
  then show ?case by (simp add: hpBounded_cong [OF updaters_playerStats(6)])
next
  case (r_sellArmor s armorId)
  then show ?case by (simp add: hpBounded_cong [OF updaters_playerStats(7)])
next
  case (r_upgradeResearch s)
  then have "hpBounded (updatePlayerStats X (upgradeResearch_updater s))"
    by (simp add: recomputed_hpBounded [OF assms(1) _ updaters_playerStats(5)])
  then show ?case
    by (simp add: upgradeResearch_def hpBounded_cong [OF checkAndUnlockAchievements_frame(2)])
next
  case (r_openChest s chestCost items bonusGems rewardType)
  then show ?case by (simp add: hpBounded_cong [OF updaters_playerStats(8)])
next
  case (r_startCombat s enemy)
  then show ?case by (simp add: hpBounded_def startCombat_fields)
next
  case (r_attack s eager now coinRoll gemRoll hit category)
  from attack_playerStats [of eager now coinRoll gemRoll hit category s]
  have "maxHp (playerStats (attack eager now coinRoll gemRoll hit category s)) = maxHp (playerStats s)"
    "baseHp (playerStats (attack eager now coinRoll gemRoll hit category s)) = baseHp (playerStats s)"
    "hp (playerStats (attack eager now coinRoll gemRoll hit category s)) \<le> max (hp (playerStats s)) 0"
    by (metis PlayerStats.select_convs PlayerStats.surjective PlayerStats.update_convs(1))+
  with r_attack.IH show ?case by (auto simp: hpBounded_def max_def split: if_splits)
next
  case (r_setGameMode s mode)
  then show ?case by (simp add: hpBounded_cong [OF updaters_playerStats(9)])
next
  case (r_checkAndUnlockAchievements s)
  then show ?case by (simp add: hpBounded_cong [OF checkAndUnlockAchievements_frame(2)])
next
  case (r_tick s)
  then show ?case by (simp add: hpBounded_cong [OF updaters_playerStats(10)])
next
  case (r_reload s now)
  then show ?case by (simp add: hpBounded_cong [OF updaters_playerStats(11)])
qed


lemma goblinFight_reachable: "reachable exampleCollaborators goblinFight"
  unfolding goblinFight_def freshState_def by (rule r_startCombat [OF r_initial])

subsection \<open>C1: hit points never exceed their maximum\<close>

text \<open>
  C1. In every reachable state, and so after every transition from one (equip, upgrade,
  sell, research upgrade, chest opening, combat start, attack, mode change, achievement
  unlock), \<open>playerStats.hp \<le> playerStats.maxHp\<close>. The recomputation of the derived stats
  sets \<open>maxHp\<close> to \<open>floor(baseHp * (1 + researchBonus / 100))\<close> and \<open>hp\<close> to the minimum of
  the old \<open>hp\<close> and the new \<open>maxHp\<close>, in any state. The research bonus is a percentage that
  \<open>calculateResearchBonus\<close> never returns below \<open>-100\<close>.
\<close>

theorem hp_at_most_maxHp:
  assumes "\<forall>l t. - 100 \<le> calculateResearchBonus X l t" and "reachable X s"
  shows
    "(let ok = (\<lambda>t. hp (playerStats t) \<le> maxHp (playerStats t)) in
        ok s
      \<and> ok (equipWeapon X weapon s) \<and> ok (equipArmor X armr s)
      \<and> ok (upgradeWeapon X weaponId s) \<and> ok (upgradeArmor X armorId s)
      \<and> ok (sellWeapon weaponId s) \<and> ok (sellArmor armorId s)
      \<and> ok (upgradeResearch X s)
      \<and> ok (snd (openChest X chestCost items bonusGems rewardType s))
      \<and> ok (startCombat enemy s)
      \<and> ok (attack eager now coinRoll gemRoll hit category s)
      \<and> ok (setGameMode mode s)
      \<and> ok (checkAndUnlockAchievements X s))
     \<and> maxHp (playerStats (updatePlayerStats X s'))
         = \<lfloor>of_int (baseHp (playerStats s'))
              * (1 + calculateResearchBonus X (level (research s')) (tier (research s')) / 100)\<rfloor>
     \<and> hp (playerStats (updatePlayerStats X s'))
         = min (hp (playerStats s')) (maxHp (playerStats (updatePlayerStats X s')))"
proof -
  note b = reachable_hpBounded [OF assms(1)]
  have ok: "hp (playerStats t) \<le> maxHp (playerStats t)" if "reachable X t" for t
    using b [OF that] by (simp add: hpBounded_def)
  show ?thesis
    unfolding Let_def
    using ok [OF assms(2)] ok [OF r_equipWeapon [OF assms(2)]] ok [OF r_equipArmor [OF assms(2)]]
      ok [OF r_upgradeWeapon [OF assms(2)]] ok [OF r_upgradeArmor [OF assms(2)]]
      ok [OF r_sellWeapon [OF assms(2)]] ok [OF r_sellArmor [OF assms(2)]]
      ok [OF r_upgradeResearch [OF assms(2)]] ok [OF r_openChest [OF assms(2)]]
      ok [OF r_startCombat [OF assms(2)]] ok [OF r_attack [OF assms(2)]]
      ok [OF r_setGameMode [OF assms(2)]] ok [OF r_checkAndUnlockAchievements [OF assms(2)]]
    by (simp add: updatePlayerStats_maxHp)
qed

theorem hp_at_most_maxHp_witness:
  "(\<forall>l t. - 100 \<le> calculateResearchBonus exampleCollaborators l t)
   \<and> reachable exampleCollaborators goblinFight
   \<and> hp (playerStats goblinFight) \<le> maxHp (playerStats goblinFight)
   \<and> hp (playerStats (attack False 0 0 0 False None goblinFight))
       \<le> maxHp (playerStats (attack False 0 0 0 False None goblinFight))
   \<and> hp (playerStats (attack False 0 0 0 False None goblinFight)) = 180
   \<and> hp (playerStats (equipWeapon exampleCollaborators ironSword goblinFight))
       \<le> maxHp (playerStats (equipWeapon exampleCollaborators ironSword goblinFight))
   \<and> maxHp (playerStats (updatePlayerStats exampleCollaborators daggerState)) = 200
   \<and> hp (playerStats (updatePlayerStats exampleCollaborators
          (daggerState\<lparr>playerStats := initialPlayerStats\<lparr>hp := 350\<rparr>\<rparr>))) = 200"
proof -
  have rb: "\<forall>l t. - 100 \<le> calculateResearchBonus exampleCollaborators l t"
    by (simp add: exampleCollaborators_def)
  have ps: "playerStats goblinFight = initialPlayerStats"
    by (simp add: goblinFight_def startCombat_def freshState_def initialGameState_def
        initialGameMode_def initialPlayerStats_def)
  have hit: "hp (playerStats (resolveAttack 0 0 False goblin goblinFight)) = 180"
    by (simp add: resolveAttack_def Let_def ps initialPlayerStats_def goblin_def)
  have m: "maxHp (playerStats (updatePlayerStats exampleCollaborators daggerState)) = 200"
    "maxHp (playerStats (updatePlayerStats exampleCollaborators
          (daggerState\<lparr>playerStats := initialPlayerStats\<lparr>hp := 350\<rparr>\<rparr>))) = 200"
    by (simp_all add: updatePlayerStats_def Let_def exampleCollaborators_def daggerState_def
        freshState_def initialGameState_def initialPlayerStats_def initialResearch_def)
  show ?thesis
    using hp_at_most_maxHp [OF rb goblinFight_reachable, where weapon = ironSword
        and eager = False and now = 0 and coinRoll = 0 and gemRoll = 0 and hit = False
        and category = None
        and s' = "daggerState\<lparr>playerStats := initialPlayerStats\<lparr>hp := 350\<rparr>\<rparr>"]
      rb goblinFight_reachable hit m
    by (simp add: Let_def attack_fields [OF goblinFight_in_combat] initialPlayerStats_def)
qed

subsection \<open>Derived stats are up to date in reachable states\<close>

text \<open>\<open>upgradeWeapon\<close> and \<open>upgradeArmor\<close> call \<open>updatePlayerStats()\<close> also when their updater
  refused the upgrade. The recomputation then finds nothing to change: every transition that
  touches equipment or research ends with it, and the others only lower \<open>hp\<close> or set it to
  \<open>maxHp\<close>. The initial stats are the recomputed ones when no research gives no bonus.\<close>

lemma statsUpToDate_iff:
  "statsUpToDate X s \<longleftrightarrow> playerStats (updatePlayerStats X s) = playerStats s"
proof
  assume "statsUpToDate X s"
  then show "playerStats (updatePlayerStats X s) = playerStats s"
    by (simp add: statsUpToDate_def)
next
  assume a: "playerStats (updatePlayerStats X s) = playerStats s"
  have "updatePlayerStats X s = s\<lparr>playerStats := playerStats (updatePlayerStats X s)\<rparr>"
    by (simp add: updatePlayerStats_def Let_def)
  then show "statsUpToDate X s" by (simp add: statsUpToDate_def a)
qed

lemma updatePlayerStats_upToDate: "statsUpToDate X (updatePlayerStats X s)"
  by (simp add: statsUpToDate_iff) (simp add: updatePlayerStats_def Let_def)

lemma recomputed_after_hp_change:
  assumes "playerStats s' = (playerStats s)\<lparr>hp := h\<rparr>"
    and "currentWeapon (inventory s') = currentWeapon (inventory s)"
    and "currentArmor (inventory s') = currentArmor (inventory s)"
    and "research s' = research s"
  shows "playerStats (updatePlayerStats X s')
     = (playerStats (updatePlayerStats X s))
         \<lparr>hp := min h (maxHp (playerStats (updatePlayerStats X s)))\<rparr>"
  by (simp add: updatePlayerStats_def Let_def assms)

lemma upToDate_after_hp_change:
  assumes "statsUpToDate X s"
    and "playerStats s' = (playerStats s)\<lparr>hp := h\<rparr>" and "h \<le> maxHp (playerStats s)"
    and "currentWeapon (inventory s') = currentWeapon (inventory s)"
    and "currentArmor (inventory s') = currentArmor (inventory s)"
    and "research s' = research s"
  shows "statsUpToDate X s'"
proof -
  have "playerStats (updatePlayerStats X s) = playerStats s"
    using assms(1) by (simp add: statsUpToDate_iff)
  then have "playerStats (updatePlayerStats X s') = (playerStats s)\<lparr>hp := h\<rparr>"
    using recomputed_after_hp_change [OF assms(2,4,5,6), of X] assms(3)
    by (simp add: min_def)
  then show ?thesis by (simp add: statsUpToDate_iff assms(2))
qed

lemma upToDate_same_stats:
  assumes "statsUpToDate X s" and "hpBounded s"
    and "playerStats s' = playerStats s" and "inventory s' = inventory s"
    and "research s' = research s"
  shows "statsUpToDate X s'"
proof (rule upToDate_after_hp_change [OF assms(1)])
  show "playerStats s' = (playerStats s)\<lparr>hp := hp (playerStats s)\<rparr>"
    by (simp add: assms(3))
  show "hp (playerStats s) \<le> maxHp (playerStats s)"
    using assms(2) by (simp add: hpBounded_def)
qed (simp_all add: assms)


lemma fold_updateCollectionBook_research:
  "research (fold updateCollectionBook items s) = research s"
proof (induction items arbitrary: s)
  case Nil
  show ?case by simp
next
  case (Cons item items)
  have "research (updateCollectionBook item s) = research s"
    by (cases item) (simp_all add: updateCollectionBook_def Let_def)
  then show ?case by (simp add: Cons.IH)
qed

lemma equipment_and_research_kept:
  "currentWeapon (inventory (sellWeapon weaponId s)) = currentWeapon (inventory s)"
  "currentArmor (inventory (sellWeapon weaponId s)) = currentArmor (inventory s)"
  "research (sellWeapon weaponId s) = research s"
  "currentWeapon (inventory (sellArmor armorId s)) = currentWeapon (inventory s)"
  "currentArmor (inventory (sellArmor armorId s)) = currentArmor (inventory s)"
  "research (sellArmor armorId s) = research s"
  "currentWeapon (inventory (snd (openChest X chestCost items bonusGems rewardType s)))
     = currentWeapon (inventory s)"
  "currentArmor (inventory (snd (openChest X chestCost items bonusGems rewardType s)))
     = currentArmor (inventory s)"
  "research (snd (openChest X chestCost items bonusGems rewardType s)) = research s"
  by (simp_all add: sellWeapon_def sellArmor_def openChest_def openChest_updater_def
      checkAndUnlockAchievements_frame fold_updateCollectionBook_inventory
      fold_updateCollectionBook_research Let_def split: option.splits)

lemma attack_research: "research (attack eager now cr gr hit cat s) = research s"
proof (cases "currentEnemy s")
  case None
  then show ?thesis by (simp add: attack_def)
next
  case (Some e)
  show ?thesis
  proof (cases "inCombat s")
    case True
    show ?thesis by (simp add: attack_fields [OF Some True] resolveAttack_def Let_def)
  next
    case False
    then show ?thesis using Some by (simp add: attack_def)
  qed
qed

lemma reachable_statsUpToDate:
  assumes "\<forall>l t. - 100 \<le> calculateResearchBonus X l t"
    and "calculateResearchBonus X 0 0 = 0"
    and "reachable X s"
  shows "statsUpToDate X s"
  using assms(3)
proof (induction rule: reachable.induct)
  case (r_initial now)
  show ?case
    by (simp add: statsUpToDate_iff updatePlayerStats_def Let_def initialGameState_def
        initialPlayerStats_def initialInventory_def initialResearch_def assms(2))
next
  case (r_equipWeapon s weapon)
  show ?case by (simp add: equipWeapon_def updatePlayerStats_upToDate)
next
  case (r_equipArmor s armr)
  show ?case by (simp add: equipArmor_def updatePlayerStats_upToDate)
next
  case (r_upgradeWeapon s weaponId)
  show ?case by (simp add: upgradeWeapon_def updatePlayerStats_upToDate)
next
  case (r_upgradeArmor s armorId)
  show ?case by (simp add: upgradeArmor_def updatePlayerStats_upToDate)
next
  case (r_sellWeapon s weaponId)
  note b = reachable_hpBounded [OF assms(1) r_sellWeapon.hyps]
  show ?case
    by (rule upToDate_after_hp_change [OF r_sellWeapon.IH, where h = "hp (playerStats s)"])
       (use b in \<open>simp_all add: updaters_playerStats equipment_and_research_kept hpBounded_def\<close>)
next
  case (r_sellArmor s armorId)
  note b = reachable_hpBounded [OF assms(1) r_sellArmor.hyps]
  show ?case
    by (rule upToDate_after_hp_change [OF r_sellArmor.IH, where h = "hp (playerStats s)"])
       (use b in \<open>simp_all add: updaters_playerStats equipment_and_research_kept hpBounded_def\<close>)
next
  case (r_upgradeResearch s)
  let ?u = "updatePlayerStats X (upgradeResearch_updater s)"
  have "hpBounded ?u"
    using reachable_hpBounded [OF assms(1) r_upgradeResearch.hyps]
    by (simp add: recomputed_hpBounded [OF assms(1) _ updaters_playerStats(5)])
  then show ?case
    unfolding upgradeResearch_def
    by (rule upToDate_same_stats [OF updatePlayerStats_upToDate])
       (simp_all add: checkAndUnlockAchievements_frame)
next
  case (r_openChest s chestCost items bonusGems rewardType)
  note b = reachable_hpBounded [OF assms(1) r_openChest.hyps]
  show ?case
    by (rule upToDate_after_hp_change [OF r_openChest.IH, where h = "hp (playerStats s)"])
       (use b in \<open>simp_all add: updaters_playerStats equipment_and_research_kept hpBounded_def\<close>)
next
  case (r_startCombat s enemy)
  note b = reachable_hpBounded [OF assms(1) r_startCombat.hyps]
  show ?case
    by (rule upToDate_after_hp_change [OF r_startCombat.IH,
          where h = "if gm_current (gameMode s) = Survival then hp (playerStats s)
                     else maxHp (playerStats s)"])
       (use b in \<open>simp_all add: startCombat_def hpBounded_def\<close>)
next
  case (r_attack s eager now coinRoll gemRoll hit category)
  note b = reachable_hpBounded [OF assms(1) r_attack.hyps]
  note a = attack_playerStats [of eager now coinRoll gemRoll hit category s]
  show ?case
  proof (rule upToDate_after_hp_change [OF r_attack.IH])
    show "playerStats (attack eager now coinRoll gemRoll hit category s)
        = (playerStats s)\<lparr>hp := hp (playerStats (attack eager now coinRoll gemRoll hit category s))\<rparr>"
      using a by simp
    show "hp (playerStats (attack eager now coinRoll gemRoll hit category s)) \<le> maxHp (playerStats s)"
      using a b by (auto simp: hpBounded_def max_def split: if_splits)
  qed (simp_all add: attack_inventory attack_research)
next
  case (r_setGameMode s mode)
  note b = reachable_hpBounded [OF assms(1) r_setGameMode.hyps]
  show ?case
    by (rule upToDate_same_stats [OF r_setGameMode.IH b]) (simp_all add: setGameMode_def)
next
  case (r_checkAndUnlockAchievements s)
  note b = reachable_hpBounded [OF assms(1) r_checkAndUnlockAchievements.hyps]
  show ?case
    by (rule upToDate_same_stats [OF r_checkAndUnlockAchievements.IH b])
       (simp_all add: checkAndUnlockAchievements_frame)
next
  case (r_tick s)
  note b = reachable_hpBounded [OF assms(1) r_tick.hyps]
  show ?case by (rule upToDate_same_stats [OF r_tick.IH b]) (simp_all add: tick_def)
next
  case (r_reload s now)
  note b = reachable_hpBounded [OF assms(1) r_reload.hyps]
  show ?case
    by (rule upToDate_same_stats [OF r_reload.IH b])
       (simp_all add: loadGameState_def stateToSave_def)
qed

lemma updateCollectionBook_frame:
  "inventory (updateCollectionBook item s) = inventory s"
  "coins (updateCollectionBook item s) = coins s"
  "gems (updateCollectionBook item s) = gems s"
  "currentEnemy (updateCollectionBook item s) = currentEnemy s"
  "inCombat (updateCollectionBook item s) = inCombat s"
  "knowledgeStreak (updateCollectionBook item s) = knowledgeStreak s"
  by (cases item; simp add: updateCollectionBook_def Let_def)+

lemma armedState_facts:
  "weapons (inventory armedState) = [steelAxe]"
  "armor (inventory armedState) = [leatherVest]"
  "currentWeapon (inventory armedState) = Some steelAxe"
  "currentArmor (inventory armedState) = None"
  "gems armedState = 5" "coins armedState = 50"
  "currentEnemy armedState = None" "inCombat armedState = False"
  by (simp_all add: armedState_def equipWeapon_def updatePlayerStats_frame
      equipWeapon_updater_def openChest_def openChest_updater_def Let_def
      checkAndUnlockAchievements_def exampleCollaborators_def freshState_def
      initialGameState_def initialInventory_def initialKnowledgeStreak_def
      updateCollectionBook_frame rewards_evaluated)

lemma armedState_reachable: "reachable exampleCollaborators armedState"
  unfolding armedState_def freshState_def
  by (rule r_equipWeapon [OF r_openChest [OF r_initial]])

subsection \<open>C5: refused intents\<close>

text \<open>
  C5. An intent whose precondition is not met leaves the state as it is. For a reachable
  state \<open>s\<close>: upgrading a weapon or armor whose id is unknown or whose \<open>upgradeCost\<close> exceeds
  the gem balance returns \<open>s\<close>. For any state \<open>t\<close>, reachable or not: the updater of such an
  upgrade returns \<open>t\<close> (the whole callback is then just the stat recomputation), selling an
  unknown item or the item whose id is equipped returns \<open>t\<close>, opening a chest that costs more
  than the coins at hand returns no reward and \<open>t\<close>, and attacking without an enemy or
  outside combat returns \<open>t\<close>. None of these paths has an error result: the source does not
  throw on them. The research bonus is a percentage not below \<open>-100\<close> that is 0 at level 0,
  tier 0.
\<close>

theorem refused_intents_change_nothing:
  assumes "\<forall>l t. - 100 \<le> calculateResearchBonus X l t"
    and "calculateResearchBonus X 0 0 = 0"
    and "reachable X s"
  shows
    "(find (\<lambda>w. w_id w = weaponId) (weapons (inventory s)) = None
        \<or> (\<exists>weapon. find (\<lambda>w. w_id w = weaponId) (weapons (inventory s)) = Some weapon
                     \<and> gems s < w_upgradeCost weapon)
      \<longrightarrow> upgradeWeapon X weaponId s = s)
   \<and> (find (\<lambda>a. a_id a = armorId) (armor (inventory s)) = None
        \<or> (\<exists>armr. find (\<lambda>a. a_id a = armorId) (armor (inventory s)) = Some armr
                   \<and> gems s < a_upgradeCost armr)
      \<longrightarrow> upgradeArmor X armorId s = s)
   \<and> (find (\<lambda>w. w_id w = weaponId) (weapons (inventory t)) = None
        \<or> (\<exists>weapon. find (\<lambda>w. w_id w = weaponId) (weapons (inventory t)) = Some weapon
                     \<and> gems t < w_upgradeCost weapon)
      \<longrightarrow> upgradeWeapon_updater weaponId t = t
        \<and> upgradeWeapon X weaponId t = updatePlayerStats X t)
   \<and> (find (\<lambda>a. a_id a = armorId) (armor (inventory t)) = None
        \<or> (\<exists>armr. find (\<lambda>a. a_id a = armorId) (armor (inventory t)) = Some armr
                   \<and> gems t < a_upgradeCost armr)
      \<longrightarrow> upgradeArmor_updater armorId t = t
        \<and> upgradeArmor X armorId t = updatePlayerStats X t)
   \<and> (find (\<lambda>w. w_id w = weaponId) (weapons (inventory t)) = None
        \<or> currentWeaponHasId t weaponId
      \<longrightarrow> sellWeapon weaponId t = t)
   \<and> (find (\<lambda>a. a_id a = armorId) (armor (inventory t)) = None
        \<or> currentArmorHasId t armorId
      \<longrightarrow> sellArmor armorId t = t)
   \<and> (coins t < chestCost
      \<longrightarrow> openChest X chestCost items bonusGems rewardType t = (None, t))
   \<and> (currentEnemy t = None \<or> \<not> inCombat t
      \<longrightarrow> attack eager now coinRoll gemRoll hit category t = t)"
proof -
  have sync: "updatePlayerStats X s = s"
    using reachable_statsUpToDate [OF assms] by (simp add: statsUpToDate_def)
  have uw: "upgradeWeapon_updater weaponId u = u
      \<and> upgradeWeapon X weaponId u = updatePlayerStats X u"
    if "find (\<lambda>w. w_id w = weaponId) (weapons (inventory u)) = None
        \<or> (\<exists>weapon. find (\<lambda>w. w_id w = weaponId) (weapons (inventory u)) = Some weapon
                     \<and> gems u < w_upgradeCost weapon)" for u
    using upgradeWeapon_updater_refused [OF that] by (simp add: upgradeWeapon_def)
  have ua: "upgradeArmor_updater armorId u = u
      \<and> upgradeArmor X armorId u = updatePlayerStats X u"
    if "find (\<lambda>a. a_id a = armorId) (armor (inventory u)) = None
        \<or> (\<exists>armr. find (\<lambda>a. a_id a = armorId) (armor (inventory u)) = Some armr
                   \<and> gems u < a_upgradeCost armr)" for u
    using upgradeArmor_updater_refused [OF that] by (simp add: upgradeArmor_def)
  have sw: "sellWeapon weaponId t = t"
    if "find (\<lambda>w. w_id w = weaponId) (weapons (inventory t)) = None
        \<or> currentWeaponHasId t weaponId"
    using that by (auto simp: sellWeapon_def split: option.splits)
  have sa: "sellArmor armorId t = t"
    if "find (\<lambda>a. a_id a = armorId) (armor (inventory t)) = None
        \<or> currentArmorHasId t armorId"
    using that by (auto simp: sellArmor_def split: option.splits)
  have oc: "openChest X chestCost items bonusGems rewardType t = (None, t)"
    if "coins t < chestCost"
    using that by (simp add: openChest_def)
  have at: "attack eager now coinRoll gemRoll hit category t = t"
    if "currentEnemy t = None \<or> \<not> inCombat t"
    using that by (auto simp: attack_def split: option.splits)
  from uw [of s] uw [of t] ua [of s] ua [of t] sw sa oc at sync show ?thesis
    by (simp (no_asm_simp))
qed

theorem refused_intents_change_nothing_witness:
  "(\<forall>l t. - 100 \<le> calculateResearchBonus exampleCollaborators l t)
   \<and> calculateResearchBonus exampleCollaborators 0 0 = 0
   \<and> reachable exampleCollaborators armedState
   \<and> find (\<lambda>w. w_id w = ''ax'') (weapons (inventory armedState)) = Some steelAxe
   \<and> gems armedState < w_upgradeCost steelAxe
   \<and> upgradeWeapon exampleCollaborators ''ax'' armedState = armedState
   \<and> find (\<lambda>a. a_id a = ''zz'') (armor (inventory armedState)) = None
   \<and> upgradeArmor exampleCollaborators ''zz'' armedState = armedState
   \<and> currentWeaponHasId armedState ''ax''
   \<and> sellWeapon ''ax'' armedState = armedState
   \<and> sellArmor ''zz'' armedState = armedState
   \<and> coins armedState < 1000
   \<and> openChest exampleCollaborators 1000 [WeaponItem ironSword] 9 ChestArmor armedState
       = (None, armedState)
   \<and> currentEnemy armedState = None
   \<and> attack True 3 1 1 True (Some ''Math'') armedState = armedState"
proof -
  have rb: "\<forall>l t. - 100 \<le> calculateResearchBonus exampleCollaborators l t"
    "calculateResearchBonus exampleCollaborators 0 0 = 0"
    by (simp_all add: exampleCollaborators_def)
  have f: "find (\<lambda>w. w_id w = ''ax'') (weapons (inventory armedState)) = Some steelAxe"
    "gems armedState < w_upgradeCost steelAxe"
    "find (\<lambda>a. a_id a = ''zz'') (armor (inventory armedState)) = None"
    "currentWeaponHasId armedState ''ax''" "coins armedState < 1000"
    by (simp_all add: armedState_facts steelAxe_def leatherVest_def currentWeaponHasId_def)
  show ?thesis
    using refused_intents_change_nothing [OF rb armedState_reachable,
        where weaponId = "''ax''" and armorId = "''zz''" and t = armedState
        and chestCost = 1000 and items = "[WeaponItem ironSword]" and bonusGems = 9
        and rewardType = ChestArmor and eager = True and now = 3 and coinRoll = 1
        and gemRoll = 1
        and hit = True and category = "Some ''Math''"]
      rb armedState_reachable f armedState_facts
    by simp
qed

end
